theory Spec2Isabelle
  imports Complex_Main
begin

section \<open>Dates\<close>

text \<open>
  A JavaScript \<^verbatim>\<open>Date\<close> that is valid is its time value: the milliseconds since
  1970-01-01T00:00Z, an integer. Local time is UTC plus a fixed offset \<open>tz\<close>, in
  milliseconds, that the functions reading or writing local fields take as their first
  argument (daylight-saving changes of the offset are not modelled). The dates of the
  database and the target date are taken to lie far enough from the limits of the time
  value, 8.64e15 milliseconds either side of the epoch, for \<open>setHours\<close> to stay within.

  The string \<^verbatim>\<open>forDate.toISOString().split('T')[0]\<close> is the UTC calendar date of
  \<open>forDate\<close>; it is represented by the number of that day, counted from 1970-01-01.
  \<^verbatim>\<open>new Date(dateStr)\<close> of such a date-only string is midnight UTC of that day.
\<close>

type_synonym Date = int

definition msPerDay :: int where
  "msPerDay = 1000 * 60 * 60 * 24"

definition toISODate :: "Date \<Rightarrow> int" where
  "toISODate d = d div msPerDay"

definition newDate :: "int \<Rightarrow> Date" where
  "newDate dateStr = dateStr * msPerDay"

definition setHours :: "int \<Rightarrow> Date \<Rightarrow> int \<Rightarrow> int \<Rightarrow> int \<Rightarrow> int \<Rightarrow> Date" where
  "setHours tz d h m s ms =
     ((d + tz) div msPerDay) * msPerDay + h * 3600000 + m * 60000 + s * 1000 + ms - tz"

definition getHours :: "int \<Rightarrow> Date \<Rightarrow> int" where
  "getHours tz d = ((d + tz) mod msPerDay) div 3600000"




text \<open>The local calendar day of a date, as a day number.\<close>

definition localDay :: "int \<Rightarrow> Date \<Rightarrow> int" where
  "localDay tz d = (d + tz) div msPerDay"


section \<open>The pool\<close>

datatype PoolType = task | event | aspiration

datatype PoolStatus = active | paused | completed

record PoolItem =
  pi_id :: string
  pi_type :: PoolType
  pi_title :: string
  pi_notes :: "string option"
  pi_categoryId :: "string option"
  pi_scheduledAt :: "Date option"
  pi_scheduledEnd :: "Date option"
  pi_status :: PoolStatus
  pi_lastUsedAt :: "Date option"
  pi_useCount :: int
  pi_cooldownDays :: "int option"

record Available =
  tasks :: "PoolItem list"
  aspirations :: "PoolItem list"
  events :: "PoolItem list"

text \<open>\<^verbatim>\<open>GLOBAL_COOLDOWN_DAYS\<close>.\<close>

fun GLOBAL_COOLDOWN_DAYS :: "PoolType \<Rightarrow> int" where
  "GLOBAL_COOLDOWN_DAYS task = 1"
| "GLOBAL_COOLDOWN_DAYS aspiration = 3"
| "GLOBAL_COOLDOWN_DAYS event = 0"

definition startOfDay :: "int \<Rightarrow> Date \<Rightarrow> Date" where
  "startOfDay tz forDate = setHours tz (newDate (toISODate forDate)) 0 0 0 0"

definition endOfDay :: "int \<Rightarrow> Date \<Rightarrow> Date" where
  "endOfDay tz forDate = setHours tz (startOfDay tz forDate) 23 59 59 999"

definition isEventForDate :: "int \<Rightarrow> Date \<Rightarrow> PoolItem \<Rightarrow> bool" where
  "isEventForDate tz forDate item =
     (if pi_type item \<noteq> event then False
      else case pi_scheduledAt item of
             None \<Rightarrow> False
           | Some eventDate \<Rightarrow>
               startOfDay tz forDate \<le> eventDate \<and> eventDate \<le> endOfDay tz forDate)"

definition cooldownDays :: "PoolItem \<Rightarrow> int" where
  "cooldownDays item =
     (case pi_cooldownDays item of
        Some c \<Rightarrow> c
      | None \<Rightarrow> GLOBAL_COOLDOWN_DAYS (pi_type item))"

definition daysSinceUsed :: "Date \<Rightarrow> Date \<Rightarrow> int" where
  "daysSinceUsed forDate lastUsedAt = (forDate - lastUsedAt) div msPerDay"

definition offCooldown :: "Date \<Rightarrow> PoolItem \<Rightarrow> bool" where
  "offCooldown forDate item =
     (case pi_lastUsedAt item of
        None \<Rightarrow> True
      | Some l \<Rightarrow> daysSinceUsed forDate l \<ge> cooldownDays item)"

text \<open>
  \<^verbatim>\<open>PoolService.getAvailableForDate\<close>; \<open>pool\<close> is the pool-item table, in the order
  the query returns it.
\<close>

definition getAvailableForDate :: "int \<Rightarrow> Date \<Rightarrow> PoolItem list \<Rightarrow> Available" where
  "getAvailableForDate tz forDate pool =
     (let allActive = filter (\<lambda>item. pi_status item = active) pool;
          evs = filter (isEventForDate tz forDate) allActive;
          tasksAndAspirations =
            filter (\<lambda>item. pi_type item = task \<or> pi_type item = aspiration) allActive;
          available = filter (offCooldown forDate) tasksAndAspirations
      in \<lparr> tasks = filter (\<lambda>item. pi_type item = task) available,
           aspirations = filter (\<lambda>item. pi_type item = aspiration) available,
           events = evs \<rparr>)"


section \<open>Strings\<close>

text \<open>
  A string is the list of its code units, each below 256. The characters that
  \<^verbatim>\<open>trim\<close>, the regular expression class \<^verbatim>\<open>\s\<close> and \<^verbatim>\<open>Number\<close> take for
  white space are, in that range, the codes 9 to 13, 32 and 160.
\<close>

definition isWhiteSpace :: "char \<Rightarrow> bool" where
  "isWhiteSpace c = ((of_char c :: nat) \<in> {9, 10, 11, 12, 13, 32, 160})"

definition trim :: "string \<Rightarrow> string" where
  "trim s = rev (dropWhile isWhiteSpace (rev (dropWhile isWhiteSpace s)))"

definition toLowerCaseChar :: "char \<Rightarrow> char" where
  "toLowerCaseChar c =
     (let n = (of_char c :: nat)
      in if (65 \<le> n \<and> n \<le> 90) \<or> (192 \<le> n \<and> n \<le> 222 \<and> n \<noteq> 215)
         then char_of (n + 32) else c)"

definition toLowerCase :: "string \<Rightarrow> string" where
  "toLowerCase s = map toLowerCaseChar s"

text \<open>\<^verbatim>\<open>s.split(sep)\<close> for a separator of one character.\<close>

fun split :: "char \<Rightarrow> string \<Rightarrow> string list" where
  "split sep [] = [[]]"
| "split sep (c # cs) =
     (if c = sep then [] # split sep cs
      else case split sep cs of
             [] \<Rightarrow> [[c]]
           | p # ps \<Rightarrow> (c # p) # ps)"


section \<open>Number\<close>

text \<open>
  \<^verbatim>\<open>Number(s)\<close> of a string, after the grammar of string numeric literals: white space
  around the literal is dropped, the empty string is 0, a literal is a radix literal
  (\<^verbatim>\<open>0x\<close>, \<^verbatim>\<open>0o\<close>, \<^verbatim>\<open>0b\<close>) or an optionally signed decimal with fraction and
  exponent or \<^verbatim>\<open>Infinity\<close>, and anything else is \<^verbatim>\<open>NaN\<close>. A finite value is kept as
  the exact rational the literal denotes; its rounding to a double is not modelled.
\<close>

datatype JSNumber = NaN | PosInfinity | NegInfinity | Finite rat

definition isDigit :: "char \<Rightarrow> bool" where
  "isDigit c = (48 \<le> (of_char c :: nat) \<and> (of_char c :: nat) \<le> 57)"

definition digitOf :: "char \<Rightarrow> nat option" where
  "digitOf c =
     (let n = (of_char c :: nat)
      in if 48 \<le> n \<and> n \<le> 57 then Some (n - 48)
         else if 97 \<le> n \<and> n \<le> 102 then Some (n - 87)
         else if 65 \<le> n \<and> n \<le> 70 then Some (n - 55)
         else None)"

definition isRadixDigit :: "nat \<Rightarrow> char \<Rightarrow> bool" where
  "isRadixDigit radix c = (case digitOf c of None \<Rightarrow> False | Some v \<Rightarrow> v < radix)"

definition isDigits :: "nat \<Rightarrow> string \<Rightarrow> bool" where
  "isDigits radix s = (s \<noteq> [] \<and> list_all (isRadixDigit radix) s)"

definition digitsValue :: "nat \<Rightarrow> string \<Rightarrow> nat" where
  "digitsValue radix s =
     foldl (\<lambda>acc c. radix * acc + (case digitOf c of None \<Rightarrow> 0 | Some v \<Rightarrow> v)) 0 s"

definition signedInteger :: "string \<Rightarrow> int option" where
  "signedInteger s =
     (case s of
        [] \<Rightarrow> None
      | c # r \<Rightarrow>
          if c = CHR ''+'' then (if isDigits 10 r then Some (int (digitsValue 10 r)) else None)
          else if c = CHR ''-'' then (if isDigits 10 r then Some (- int (digitsValue 10 r)) else None)
          else if isDigits 10 s then Some (int (digitsValue 10 s)) else None)"

definition exponentPart :: "string \<Rightarrow> int option" where
  "exponentPart s =
     (case s of
        [] \<Rightarrow> Some 0
      | c # r \<Rightarrow> if c = CHR ''e'' \<or> c = CHR ''E'' then signedInteger r else None)"

definition scale10 :: "nat \<Rightarrow> int \<Rightarrow> rat" where
  "scale10 n e = (if 0 \<le> e then of_nat n * 10 ^ nat e else of_nat n / 10 ^ nat (- e))"

definition unsignedDecimal :: "string \<Rightarrow> JSNumber" where
  "unsignedDecimal s =
     (if s = ''Infinity'' then PosInfinity
      else
        let ip = takeWhile isDigit s;
            r1 = dropWhile isDigit s;
            dot = (case r1 of [] \<Rightarrow> False | c # r \<Rightarrow> c = CHR ''.'');
            fp = (if dot then takeWhile isDigit (tl r1) else []);
            r2 = (if dot then dropWhile isDigit (tl r1) else r1)
        in if ip = [] \<and> fp = [] then NaN
           else case exponentPart r2 of
                  None \<Rightarrow> NaN
                | Some e \<Rightarrow> Finite (scale10 (digitsValue 10 (ip @ fp)) (e - int (length fp))))"

fun negate :: "JSNumber \<Rightarrow> JSNumber" where
  "negate NaN = NaN"
| "negate PosInfinity = NegInfinity"
| "negate NegInfinity = PosInfinity"
| "negate (Finite q) = Finite (- q)"

definition radixLiteral :: "string \<Rightarrow> JSNumber option" where
  "radixLiteral s =
     (let p = take 2 s; r = drop 2 s;
          radix = (if p = ''0x'' \<or> p = ''0X'' then Some 16
                   else if p = ''0o'' \<or> p = ''0O'' then Some 8
                   else if p = ''0b'' \<or> p = ''0B'' then Some 2
                   else None)
      in case radix of
           None \<Rightarrow> None
         | Some b \<Rightarrow> Some (if isDigits b r then Finite (of_nat (digitsValue b r)) else NaN))"

definition Number :: "string \<Rightarrow> JSNumber" where
  "Number s =
     (let t = trim s
      in case t of
           [] \<Rightarrow> Finite 0
         | c # r \<Rightarrow>
             (case radixLiteral t of
                Some v \<Rightarrow> v
              | None \<Rightarrow>
                  if c = CHR ''+'' then unsignedDecimal r
                  else if c = CHR ''-'' then negate (unsignedDecimal r)
                  else unsignedDecimal t))"

text \<open>\<^verbatim>\<open>ToIntegerOrInfinity\<close> on a finite value: rounding towards zero.\<close>

definition toInteger :: "rat \<Rightarrow> int" where
  "toInteger q = (if 0 \<le> q then \<lfloor>q\<rfloor> else \<lceil>q\<rceil>)"


section \<open>Times of day\<close>

text \<open>
  What \<^verbatim>\<open>timeToDate\<close> returns: a \<^verbatim>\<open>Date\<close> that may be the invalid date.
  \<^verbatim>\<open>d.setHours(h, m, 0, 0)\<close> with numbers gives the invalid date when \<open>h\<close> or \<open>m\<close> is
  not finite or the new time value lies beyond 8.64e15 milliseconds from the epoch.
\<close>

datatype ScheduledTime = InvalidDate | At Date

definition timeClip :: "int \<Rightarrow> ScheduledTime" where
  "timeClip t = (if \<bar>t\<bar> \<le> 8640000000000000 then At t else InvalidDate)"

definition setHoursNum :: "int \<Rightarrow> Date \<Rightarrow> JSNumber \<Rightarrow> JSNumber \<Rightarrow> ScheduledTime" where
  "setHoursNum tz d h m =
     (case (h, m) of
        (Finite hq, Finite mq) \<Rightarrow> timeClip (setHours tz d (toInteger hq) (toInteger mq) 0 0)
      | _ \<Rightarrow> InvalidDate)"

text \<open>
  \<^verbatim>\<open>timeToDate(dateStr, timeStr)\<close>. The destructuring \<^verbatim>\<open>[h, m]\<close> reads the first two
  parts of the split; \<^verbatim>\<open>h ?? 9\<close> and \<^verbatim>\<open>m ?? 0\<close> replace a missing part only, and
  \<^verbatim>\<open>split\<close> always returns a first part.
\<close>

definition timeToDate :: "int \<Rightarrow> int \<Rightarrow> string \<Rightarrow> ScheduledTime" where
  "timeToDate tz dateStr timeStr =
     (let d = newDate dateStr
      in if timeStr = [] \<or> timeStr = ''morning'' then setHoursNum tz d (Finite 9) (Finite 0)
         else if timeStr = ''afternoon'' then setHoursNum tz d (Finite 14) (Finite 0)
         else if timeStr = ''evening'' then setHoursNum tz d (Finite 18) (Finite 0)
         else case map Number (split CHR '':'' timeStr) of
                [] \<Rightarrow> setHoursNum tz d (Finite 9) (Finite 0)
              | [h] \<Rightarrow> setHoursNum tz d h (Finite 0)
              | h # m # _ \<Rightarrow> setHoursNum tz d h m)"


section \<open>The model's answer\<close>

text \<open>
  The first match of the regular expression
  \<^verbatim>\<open>/```(?:json)?\s*([\s\S]*?)```/\<close> starts at the first fence that has another fence
  after it; its group is the text between the opening fence, an optional \<^verbatim>\<open>json\<close> and
  white space, and the next fence.
\<close>

fun splitAtFence :: "string \<Rightarrow> (string \<times> string) option" where
  "splitAtFence [] = None"
| "splitAtFence (c # cs) =
     (if take 3 (c # cs) = ''```'' then Some ([], drop 3 (c # cs))
      else case splitAtFence cs of
             None \<Rightarrow> None
           | Some (before, after) \<Rightarrow> Some (c # before, after))"

definition fencedBlock :: "string \<Rightarrow> string option" where
  "fencedBlock raw =
     (case splitAtFence raw of
        None \<Rightarrow> None
      | Some (_, r0) \<Rightarrow>
          let r1 = (if take 4 r0 = ''json'' then drop 4 r0 else r0);
              r2 = dropWhile isWhiteSpace r1
          in case splitAtFence r2 of
               None \<Rightarrow> None
             | Some (body, _) \<Rightarrow> Some body)"

definition jsonStr :: "string \<Rightarrow> string" where
  "jsonStr raw = (case fencedBlock raw of Some body \<Rightarrow> trim body | None \<Rightarrow> trim raw)"


text \<open>
  The interfaces \<^verbatim>\<open>LLMTask\<close> and \<^verbatim>\<open>LLMPlanOutput\<close>. An optional field that is absent
  or \<^verbatim>\<open>null\<close> is \<open>None\<close>; the code treats the two alike. The entries are taken to
  inhabit the interface, which the cast \<^verbatim>\<open>as LLMPlanOutput\<close> asserts without a check.
\<close>

record LLMTask =
  t_category :: string
  t_title :: string
  t_description :: "string option"
  t_time :: "string option"
  t_duration_minutes :: "int option"
  t_priority :: "int option"
  t_pool_item_id :: "string option"
  t_is_i_wonder :: "bool option"

text \<open>
  The property \<^verbatim>\<open>tasks\<close> of the parsed value, which \<^verbatim>\<open>generatePlan\<close> tests with
  \<^verbatim>\<open>Array.isArray\<close>: missing, present but no array, or an array of entries.
\<close>

datatype TasksField = Missing | NotAnArray | Entries "LLMTask list"

record LLMPlanOutput =
  capacity_notes :: "string option"
  mental_state_notes :: "string option"
  llm_tasks :: TasksField

text \<open>
  What \<^verbatim>\<open>JSON.parse\<close> returns when it does not throw: a falsy value (\<^verbatim>\<open>null\<close>,
  \<^verbatim>\<open>false\<close>, \<^verbatim>\<open>0\<close>, the empty string) or a truthy one, read through the interface.
  \<^verbatim>\<open>JSON.parse\<close> itself is a parameter \<open>JSON_parse\<close> of the model, \<open>None\<close> where it
  throws.
\<close>

datatype Parsed = Falsy | Truthy LLMPlanOutput

definition parseLLMResponse :: "(string \<Rightarrow> Parsed option) \<Rightarrow> string \<Rightarrow> Parsed option" where
  "parseLLMResponse JSON_parse raw = JSON_parse (jsonStr raw)"


section \<open>The database\<close>

datatype Capacity = low | medium | high

record JournalEntry =
  je_timestamp :: Date
  je_energyLevel :: "int option"
  je_sleepQuality :: "int option"

record Category =
  cat_id :: string
  cat_name :: string
  cat_enabled :: bool

record DailyPlan =
  plan_id :: string
  plan_date :: Date
  plan_capacityScore :: Capacity
  plan_mentalStateSummary :: "string option"

datatype TaskStatus = pending | in_progress | task_completed | skipped

text \<open>
  A row of the table of tasks, as \<^verbatim>\<open>task.create\<close> is given it; \<open>task_status\<close> is the
  column's default on creation.
\<close>

record Task =
  task_dailyPlanId :: string
  task_categoryId :: string
  task_poolItemId :: "string option"
  task_title :: string
  task_description :: "string option"
  task_scheduledTime :: "ScheduledTime option"
  task_durationMinutes :: "int option"
  task_priority :: int
  task_status :: TaskStatus

text \<open>The tables; \<open>categories\<close> is kept in the order of \<^verbatim>\<open>CategoryService.findAll\<close>.\<close>

record Database =
  journalEntries :: "JournalEntry list"
  categories :: "Category list"
  dailyPlans :: "DailyPlan list"
  taskRows :: "Task list"
  poolItems :: "PoolItem list"


section \<open>The context\<close>

text \<open>
  Of \<^verbatim>\<open>PlanningContext\<close>, the fields that \<^verbatim>\<open>generatePlan\<close> reads after the prompt is
  built. The prompt goes to the language model only, whose answer is an input here.
  Numbers are real numbers; the rounding of doubles is not modelled.
\<close>

record PlanningContext =
  ctx_capacityScore :: Capacity
  ctx_categories :: "Category list"
  ctx_poolItems :: Available

definition average :: "int option list \<Rightarrow> real" where
  "average ratings =
     (let present = List.map_filter (\<lambda>r. r) ratings
      in if length present > 0 then real_of_int (sum_list present) / real (length present)
         else 5)"

definition completionRate :: "Task list \<Rightarrow> real" where
  "completionRate ts =
     (if length ts > 0
      then real (length (filter (\<lambda>t. task_status t = task_completed) ts)) / real (length ts)
      else 0.5)"

definition score :: "real \<Rightarrow> real \<Rightarrow> real \<Rightarrow> real" where
  "score avgEnergy avgSleep rate = (avgEnergy / 10) * 0.4 + (avgSleep / 10) * 0.3 + rate * 0.3"

definition capacityScore :: "real \<Rightarrow> Capacity" where
  "capacityScore sc = (if sc < 0.4 then low else if sc > 0.7 then high else medium)"

text \<open>The rows the two queries of \<^verbatim>\<open>gatherContext\<close> return for the seven days before.\<close>

definition recentEntries :: "Date \<Rightarrow> Database \<Rightarrow> JournalEntry list" where
  "recentEntries forDate db =
     (let startDate = forDate - 7 * msPerDay
      in filter (\<lambda>e. startDate \<le> je_timestamp e \<and> je_timestamp e < forDate) (journalEntries db))"

definition recentTasks :: "Date \<Rightarrow> Database \<Rightarrow> Task list" where
  "recentTasks forDate db =
     (let startDate = forDate - 7 * msPerDay
      in filter (\<lambda>t. case find (\<lambda>p. plan_id p = task_dailyPlanId t) (dailyPlans db) of
                       None \<Rightarrow> False
                     | Some p \<Rightarrow> startDate \<le> plan_date p \<and> plan_date p < forDate)
           (taskRows db))"

definition gatherContext :: "int \<Rightarrow> Date \<Rightarrow> Database \<Rightarrow> PlanningContext" where
  "gatherContext tz forDate db =
     (let entries = recentEntries forDate db;
          ts = recentTasks forDate db;
          avgEnergy = average (map je_energyLevel entries);
          avgSleep = average (map je_sleepQuality entries)
      in \<lparr> ctx_capacityScore = capacityScore (score avgEnergy avgSleep (completionRate ts)),
           ctx_categories = filter cat_enabled (categories db),
           ctx_poolItems = getAvailableForDate tz forDate (poolItems db) \<rparr>)"


section \<open>The commit\<close>

text \<open>
  What \<^verbatim>\<open>generatePlan\<close> throws: the failure of the call of the language model, its own
  error with the message, or the failure of a write of the transaction. Any write may
  fail: \<open>fails n\<close> says whether the write number \<open>n\<close> of the transaction, counted from 0,
  throws.
\<close>

datatype Error = OllamaError | Error string | DbError nat

record Tx =
  tx_db :: Database
  tx_writes :: nat

definition dailyPlan_create :: "(nat \<Rightarrow> bool) \<Rightarrow> DailyPlan \<Rightarrow> Tx \<Rightarrow> Error + Tx" where
  "dailyPlan_create fails plan tx =
     (if fails (tx_writes tx) then Inl (DbError (tx_writes tx))
      else Inr \<lparr> tx_db = (tx_db tx)\<lparr> dailyPlans := dailyPlans (tx_db tx) @ [plan] \<rparr>,
                 tx_writes = tx_writes tx + 1 \<rparr>)"

definition task_create :: "(nat \<Rightarrow> bool) \<Rightarrow> Task \<Rightarrow> Tx \<Rightarrow> Error + Tx" where
  "task_create fails row tx =
     (if fails (tx_writes tx) then Inl (DbError (tx_writes tx))
      else Inr \<lparr> tx_db = (tx_db tx)\<lparr> taskRows := taskRows (tx_db tx) @ [row] \<rparr>,
                 tx_writes = tx_writes tx + 1 \<rparr>)"

definition markUsed :: "string list \<Rightarrow> Date \<Rightarrow> PoolItem \<Rightarrow> PoolItem" where
  "markUsed ids usedDate item =
     (if pi_id item \<in> set ids
      then item\<lparr> pi_lastUsedAt := Some usedDate, pi_useCount := pi_useCount item + 1 \<rparr>
      else item)"

definition poolItem_updateMany ::
    "(nat \<Rightarrow> bool) \<Rightarrow> string list \<Rightarrow> Date \<Rightarrow> Tx \<Rightarrow> Error + Tx" where
  "poolItem_updateMany fails ids usedDate tx =
     (if fails (tx_writes tx) then Inl (DbError (tx_writes tx))
      else Inr \<lparr> tx_db = (tx_db tx)\<lparr> poolItems := map (markUsed ids usedDate) (poolItems (tx_db tx)) \<rparr>,
                 tx_writes = tx_writes tx + 1 \<rparr>)"

text \<open>
  \<^verbatim>\<open>prisma.$transaction\<close>: the writes of the body are made on the transaction's own
  view of the database and are committed when the body returns; when it throws, they are
  rolled back and the error is thrown on.
\<close>

definition transaction :: "(Tx \<Rightarrow> Error + Tx \<times> 'a) \<Rightarrow> Database \<Rightarrow> Database \<times> (Error + 'a)" where
  "transaction body db =
     (case body \<lparr> tx_db = db, tx_writes = 0 \<rparr> of
        Inl e \<Rightarrow> (db, Inl e)
      | Inr (tx, r) \<Rightarrow> (tx_db tx, Inr r))"

text \<open>The two maps that \<^verbatim>\<open>generatePlan\<close> builds; a later key replaces an earlier one.\<close>

definition categoryByName :: "PlanningContext \<Rightarrow> string \<Rightarrow> string option" where
  "categoryByName ctx =
     fold (\<lambda>c m. m(cat_name c \<mapsto> cat_id c)) (ctx_categories ctx) Map.empty"

definition candidates :: "PlanningContext \<Rightarrow> PoolItem list" where
  "candidates ctx = tasks (ctx_poolItems ctx) @ aspirations (ctx_poolItems ctx)"

definition titleKey :: "string \<Rightarrow> string" where
  "titleKey title = trim (toLowerCase title)"

definition poolItemsByTitle :: "PlanningContext \<Rightarrow> string \<Rightarrow> PoolItem option" where
  "poolItemsByTitle ctx =
     fold (\<lambda>item m. m(titleKey (pi_title item) \<mapsto> item)) (candidates ctx) Map.empty"

text \<open>\<^verbatim>\<open>categoryByName.get(t.category)\<close>, with \<^verbatim>\<open>!categoryId\<close> as \<open>None\<close>.\<close>

definition categoryIdOf :: "PlanningContext \<Rightarrow> LLMTask \<Rightarrow> string option" where
  "categoryIdOf ctx t =
     (case categoryByName ctx (t_category t) of
        None \<Rightarrow> None
      | Some cid \<Rightarrow> if cid = [] then None else Some cid)"

definition matchedPoolItem :: "PlanningContext \<Rightarrow> LLMTask \<Rightarrow> PoolItem option" where
  "matchedPoolItem ctx t =
     (if t_is_i_wonder t = Some True then None
      else case poolItemsByTitle ctx (titleKey (t_title t)) of
             Some item \<Rightarrow> Some item
           | None \<Rightarrow>
               (case t_pool_item_id t of
                  None \<Rightarrow> None
                | Some pid \<Rightarrow>
                    if pid = [] then None
                    else find (\<lambda>item. pi_id item = pid) (candidates ctx)))"

definition scheduledTime :: "int \<Rightarrow> int \<Rightarrow> LLMTask \<Rightarrow> ScheduledTime option" where
  "scheduledTime tz dateStr t =
     (case t_time t of
        None \<Rightarrow> None
      | Some timeStr \<Rightarrow> if timeStr = [] then None else Some (timeToDate tz dateStr timeStr))"

definition taskRow ::
    "int \<Rightarrow> PlanningContext \<Rightarrow> int \<Rightarrow> string \<Rightarrow> string \<Rightarrow> LLMTask \<Rightarrow> Task" where
  "taskRow tz ctx dateStr planId categoryId t =
     \<lparr> task_dailyPlanId = planId,
       task_categoryId = categoryId,
       task_poolItemId =
         (case matchedPoolItem ctx t of
            None \<Rightarrow> None
          | Some item \<Rightarrow> if pi_id item = [] then None else Some (pi_id item)),
       task_title = t_title t,
       task_description = t_description t,
       task_scheduledTime = scheduledTime tz dateStr t,
       task_durationMinutes = t_duration_minutes t,
       task_priority = (case t_priority t of None \<Rightarrow> 3 | Some p \<Rightarrow> p),
       task_status = pending \<rparr>"

text \<open>Step 5, the loop over \<^verbatim>\<open>parsed.tasks\<close>, with the list \<^verbatim>\<open>poolItemIdsToMark\<close>.\<close>

fun createTasks ::
    "(nat \<Rightarrow> bool) \<Rightarrow> int \<Rightarrow> PlanningContext \<Rightarrow> int \<Rightarrow> string \<Rightarrow> LLMTask list \<Rightarrow>
     Tx \<Rightarrow> string list \<Rightarrow> Error + Tx \<times> string list" where
  "createTasks fails tz ctx dateStr planId [] tx poolItemIdsToMark = Inr (tx, poolItemIdsToMark)"
| "createTasks fails tz ctx dateStr planId (t # ts) tx poolItemIdsToMark =
     (case categoryIdOf ctx t of
        None \<Rightarrow> createTasks fails tz ctx dateStr planId ts tx poolItemIdsToMark
      | Some categoryId \<Rightarrow>
          (case task_create fails (taskRow tz ctx dateStr planId categoryId t) tx of
             Inl e \<Rightarrow> Inl e
           | Inr tx' \<Rightarrow>
               createTasks fails tz ctx dateStr planId ts tx'
                 (case matchedPoolItem ctx t of
                    None \<Rightarrow> poolItemIdsToMark
                  | Some item \<Rightarrow> poolItemIdsToMark @ [pi_id item])))"

text \<open>Step 1, the list \<^verbatim>\<open>eventsToPlace\<close>, and step 6, the loop over it.\<close>

definition eventsToPlace :: "PlanningContext \<Rightarrow> (PoolItem \<times> Date) list" where
  "eventsToPlace ctx =
     List.map_filter
       (\<lambda>ev. case pi_scheduledAt ev of None \<Rightarrow> None | Some scheduledAt \<Rightarrow> Some (ev, scheduledAt))
       (events (ctx_poolItems ctx))"

definition eventCategoryId :: "PlanningContext \<Rightarrow> PoolItem \<Rightarrow> string option" where
  "eventCategoryId ctx poolItem =
     (let own = (case pi_categoryId poolItem of None \<Rightarrow> [] | Some c \<Rightarrow> c);
          categoryId =
            (if own \<noteq> [] then Some own
             else case ctx_categories ctx of [] \<Rightarrow> None | c # _ \<Rightarrow> Some (cat_id c))
      in case categoryId of
           None \<Rightarrow> None
         | Some cid \<Rightarrow> if cid = [] then None else Some cid)"

definition eventRow :: "string \<Rightarrow> string \<Rightarrow> PoolItem \<Rightarrow> Date \<Rightarrow> Task" where
  "eventRow planId categoryId poolItem scheduledAt =
     \<lparr> task_dailyPlanId = planId,
       task_categoryId = categoryId,
       task_poolItemId = Some (pi_id poolItem),
       task_title = pi_title poolItem,
       task_description = pi_notes poolItem,
       task_scheduledTime = Some (At scheduledAt),
       task_durationMinutes = None,
       task_priority = 1,
       task_status = pending \<rparr>"

fun placeEvents ::
    "(nat \<Rightarrow> bool) \<Rightarrow> PlanningContext \<Rightarrow> string \<Rightarrow> (PoolItem \<times> Date) list \<Rightarrow>
     Tx \<Rightarrow> string list \<Rightarrow> Error + Tx \<times> string list" where
  "placeEvents fails ctx planId [] tx poolItemIdsToMark = Inr (tx, poolItemIdsToMark)"
| "placeEvents fails ctx planId ((poolItem, scheduledAt) # rest) tx poolItemIdsToMark =
     (case eventCategoryId ctx poolItem of
        None \<Rightarrow> placeEvents fails ctx planId rest tx poolItemIdsToMark
      | Some categoryId \<Rightarrow>
          (case task_create fails (eventRow planId categoryId poolItem scheduledAt) tx of
             Inl e \<Rightarrow> Inl e
           | Inr tx' \<Rightarrow>
               placeEvents fails ctx planId rest tx' (poolItemIdsToMark @ [pi_id poolItem])))"

text \<open>
  \<^verbatim>\<open>[parsed.capacity_notes, parsed.mental_state_notes].filter(Boolean).join(' ')\<close>, and
  \<^verbatim>\<open>mentalStateSummary || undefined\<close>.
\<close>

definition mentalStateSummary :: "LLMPlanOutput \<Rightarrow> string option" where
  "mentalStateSummary parsed =
     (let notes = filter (\<lambda>n. n \<noteq> [])
                    (List.map_filter (\<lambda>n. n) [capacity_notes parsed, mental_state_notes parsed]);
          joined = (case notes of [] \<Rightarrow> [] | [a] \<Rightarrow> a | a # b # _ \<Rightarrow> a @ '' '' @ b)
      in if joined = [] then None else Some joined)"

record PlanResult =
  planId :: string
  taskCount :: nat

text \<open>
  The body of the transaction of \<^verbatim>\<open>generatePlan\<close>: the check
  \<^verbatim>\<open>!parsed || !Array.isArray(parsed.tasks)\<close> with the error it throws, then steps 4 to 7.
  \<open>generated\<close> is what \<^verbatim>\<open>generate\<close> returns, \<open>None\<close> when it throws; \<open>newId\<close> is
  the identifier the database gives the new plan.
\<close>

definition validPlan :: "Parsed option \<Rightarrow> (LLMPlanOutput \<times> LLMTask list) option" where
  "validPlan parsed =
     (case parsed of
        None \<Rightarrow> None
      | Some Falsy \<Rightarrow> None
      | Some (Truthy out) \<Rightarrow>
          (case llm_tasks out of
             Missing \<Rightarrow> None
           | NotAnArray \<Rightarrow> None
           | Entries ts \<Rightarrow> Some (out, ts)))"

definition invalidPlan :: "string \<Rightarrow> Error" where
  "invalidPlan response =
     Error (''LLM did not return a valid plan with tasks. Raw response: '' @ take 500 response)"

definition markPoolItems :: "(nat \<Rightarrow> bool) \<Rightarrow> string list \<Rightarrow> Date \<Rightarrow> Tx \<Rightarrow> Error + Tx" where
  "markPoolItems fails poolItemIdsToMark forDate tx =
     (if length poolItemIdsToMark > 0 then poolItem_updateMany fails poolItemIdsToMark forDate tx
      else Inr tx)"

definition totalTasks :: "PlanningContext \<Rightarrow> LLMTask list \<Rightarrow> nat" where
  "totalTasks ctx ts =
     length (filter (\<lambda>t. categoryByName ctx (t_category t) \<noteq> None) ts)
     + length (eventsToPlace ctx)"

definition commit ::
    "(nat \<Rightarrow> bool) \<Rightarrow> int \<Rightarrow> string \<Rightarrow> Date \<Rightarrow> PlanningContext \<Rightarrow> LLMPlanOutput \<Rightarrow>
     LLMTask list \<Rightarrow> Tx \<Rightarrow> Error + Tx \<times> PlanResult" where
  "commit fails tz newId forDate ctx out ts tx =
     (case dailyPlan_create fails
             \<lparr> plan_id = newId, plan_date = forDate,
               plan_capacityScore = ctx_capacityScore ctx,
               plan_mentalStateSummary = mentalStateSummary out \<rparr> tx of
        Inl e \<Rightarrow> Inl e
      | Inr tx1 \<Rightarrow>
          (case createTasks fails tz ctx (toISODate forDate) newId ts tx1 [] of
             Inl e \<Rightarrow> Inl e
           | Inr (tx2, ids2) \<Rightarrow>
               (case placeEvents fails ctx newId (eventsToPlace ctx) tx2 ids2 of
                  Inl e \<Rightarrow> Inl e
                | Inr (tx3, poolItemIdsToMark) \<Rightarrow>
                    (case markPoolItems fails poolItemIdsToMark forDate tx3 of
                       Inl e \<Rightarrow> Inl e
                     | Inr tx4 \<Rightarrow>
                         Inr (tx4, \<lparr> planId = newId, taskCount = totalTasks ctx ts \<rparr>)))))"

definition generatePlanBody ::
    "(nat \<Rightarrow> bool) \<Rightarrow> int \<Rightarrow> (string \<Rightarrow> Parsed option) \<Rightarrow> string option \<Rightarrow> string \<Rightarrow>
     Date \<Rightarrow> PlanningContext \<Rightarrow> Tx \<Rightarrow> Error + Tx \<times> PlanResult" where
  "generatePlanBody fails tz JSON_parse generated newId forDate ctx tx =
     (case generated of
        None \<Rightarrow> Inl OllamaError
      | Some response \<Rightarrow>
          (case validPlan (parseLLMResponse JSON_parse response) of
             None \<Rightarrow> Inl (invalidPlan response)
           | Some (out, ts) \<Rightarrow> commit fails tz newId forDate ctx out ts tx))"

definition generatePlan ::
    "(nat \<Rightarrow> bool) \<Rightarrow> int \<Rightarrow> (string \<Rightarrow> Parsed option) \<Rightarrow> string option \<Rightarrow> string \<Rightarrow>
     Date \<Rightarrow> Database \<Rightarrow> Database \<times> (Error + PlanResult)" where
  "generatePlan fails tz JSON_parse generated newId forDate db =
     transaction
       (generatePlanBody fails tz JSON_parse generated newId forDate (gatherContext tz forDate db))
       db"


section \<open>The rows of a committed plan\<close>

text \<open>
  Names for what the loops of steps 5 and 6 write when no write fails: the rows of the
  entries whose category is known, the rows of the events that have a category, and the
  identifiers pushed on \<^verbatim>\<open>poolItemIdsToMark\<close> by each loop; then the database after
  the commit.
\<close>

definition llmRows :: "int \<Rightarrow> PlanningContext \<Rightarrow> int \<Rightarrow> string \<Rightarrow> LLMTask list \<Rightarrow> Task list" where
  "llmRows tz ctx dateStr newId ts =
     List.map_filter
       (\<lambda>t. map_option (\<lambda>cid. taskRow tz ctx dateStr newId cid t) (categoryIdOf ctx t)) ts"

definition llmMarks :: "PlanningContext \<Rightarrow> LLMTask list \<Rightarrow> string list" where
  "llmMarks ctx ts =
     List.map_filter
       (\<lambda>t. case categoryIdOf ctx t of
              None \<Rightarrow> None
            | Some _ \<Rightarrow> map_option pi_id (matchedPoolItem ctx t)) ts"

definition eventRows :: "PlanningContext \<Rightarrow> string \<Rightarrow> (PoolItem \<times> Date) list \<Rightarrow> Task list" where
  "eventRows ctx newId evs =
     List.map_filter
       (\<lambda>(p, d). map_option (\<lambda>cid. eventRow newId cid p d) (eventCategoryId ctx p)) evs"

definition eventMarks :: "PlanningContext \<Rightarrow> (PoolItem \<times> Date) list \<Rightarrow> string list" where
  "eventMarks ctx evs =
     List.map_filter (\<lambda>(p, d). map_option (\<lambda>_. pi_id p) (eventCategoryId ctx p)) evs"

text \<open>A transaction after the creation of some rows of tasks, one write each.\<close>

definition addRows :: "Task list \<Rightarrow> Tx \<Rightarrow> Tx" where
  "addRows rows tx =
     \<lparr> tx_db = (tx_db tx)\<lparr> taskRows := taskRows (tx_db tx) @ rows \<rparr>,
       tx_writes = tx_writes tx + length rows \<rparr>"

definition newPlan :: "string \<Rightarrow> Date \<Rightarrow> PlanningContext \<Rightarrow> LLMPlanOutput \<Rightarrow> DailyPlan" where
  "newPlan newId forDate ctx out =
     \<lparr> plan_id = newId, plan_date = forDate, plan_capacityScore = ctx_capacityScore ctx,
       plan_mentalStateSummary = mentalStateSummary out \<rparr>"

definition consumed :: "PlanningContext \<Rightarrow> LLMTask list \<Rightarrow> string list" where
  "consumed ctx ts = llmMarks ctx ts @ eventMarks ctx (eventsToPlace ctx)"

definition committed ::
    "int \<Rightarrow> string \<Rightarrow> Date \<Rightarrow> PlanningContext \<Rightarrow> LLMPlanOutput \<Rightarrow> LLMTask list \<Rightarrow>
     Database \<Rightarrow> Database" where
  "committed tz newId forDate ctx out ts db =
     db\<lparr> dailyPlans := dailyPlans db @ [newPlan newId forDate ctx out],
         taskRows := taskRows db @ llmRows tz ctx (toISODate forDate) newId ts
                       @ eventRows ctx newId (eventsToPlace ctx),
         poolItems := map (markUsed (consumed ctx ts) forDate) (poolItems db) \<rparr>"


text \<open>
  The number of writes of a commit that goes through: the plan, the rows, and the one
  update of the pool items when some identifier is marked.
\<close>

definition writes :: "int \<Rightarrow> string \<Rightarrow> Date \<Rightarrow> PlanningContext \<Rightarrow> LLMTask list \<Rightarrow> nat" where
  "writes tz newId forDate ctx ts =
     1 + length (llmRows tz ctx (toISODate forDate) newId ts)
       + length (eventRows ctx newId (eventsToPlace ctx))
       + (if consumed ctx ts = [] then 0 else 1)"


section \<open>Example data\<close>

text \<open>
  15 January 2024 is day 19737. \<open>walk\<close> and \<open>paint\<close> were last used two days before
  it, \<open>dentist\<close> is at 10:00 that day and \<open>concert\<close> at 10:00 the day before, both in
  UTC.
\<close>

definition jan15 :: Date where
  "jan15 = 19737 * 86400000"

definition walk :: PoolItem where
  "walk = \<lparr> pi_id = ''p1'', pi_type = task, pi_title = ''Walk'', pi_notes = None,
            pi_categoryId = None, pi_scheduledAt = None, pi_scheduledEnd = None,
            pi_status = active, pi_lastUsedAt = Some (19735 * 86400000), pi_useCount = 4,
            pi_cooldownDays = None \<rparr>"

definition paint :: PoolItem where
  "paint = \<lparr> pi_id = ''p2'', pi_type = aspiration, pi_title = ''Paint'', pi_notes = None,
             pi_categoryId = None, pi_scheduledAt = None, pi_scheduledEnd = None,
             pi_status = active, pi_lastUsedAt = Some (19735 * 86400000), pi_useCount = 1,
             pi_cooldownDays = None \<rparr>"

definition dentist :: PoolItem where
  "dentist = \<lparr> pi_id = ''p3'', pi_type = event, pi_title = ''Dentist'', pi_notes = None,
               pi_categoryId = None, pi_scheduledAt = Some (19737 * 86400000 + 36000000),
               pi_scheduledEnd = None, pi_status = active, pi_lastUsedAt = None,
               pi_useCount = 0, pi_cooldownDays = None \<rparr>"

definition concert :: PoolItem where
  "concert = \<lparr> pi_id = ''p4'', pi_type = event, pi_title = ''Concert'', pi_notes = None,
               pi_categoryId = None, pi_scheduledAt = Some (19736 * 86400000 + 36000000),
               pi_scheduledEnd = None, pi_status = active, pi_lastUsedAt = None,
               pi_useCount = 0, pi_cooldownDays = None \<rparr>"







text \<open>An entry of the model without a time of day, and a category.\<close>

definition stretch :: LLMTask where
  "stretch = \<lparr> t_category = ''Exercise'', t_title = ''Stretch'', t_description = None,
               t_time = None, t_duration_minutes = Some 10, t_priority = None,
               t_pool_item_id = None, t_is_i_wonder = Some True \<rparr>"

definition exercise :: Category where
  "exercise = \<lparr> cat_id = ''c1'', cat_name = ''Exercise'', cat_enabled = True \<rparr>"


text \<open>
  A run for 15 January 2024 in UTC. The pool holds \<open>walk\<close>, \<open>paint\<close>, \<open>dentist\<close> and
  \<open>concert\<close>, and one category is enabled. The answer of the model has three entries: one
  whose title is that of \<open>walk\<close> in other case and spacing, one of the model's own, and one
  of a category that does not exist. \<open>parseAnswer\<close> stands for \<^verbatim>\<open>JSON.parse\<close> on the
  texts of the run, which are abbreviated.
\<close>

definition walkEntry :: LLMTask where
  "walkEntry = \<lparr> t_category = ''Exercise'', t_title = '' WALK '', t_description = None,
                 t_time = Some ''morning'', t_duration_minutes = Some 30, t_priority = Some 2,
                 t_pool_item_id = None, t_is_i_wonder = None \<rparr>"

definition choresEntry :: LLMTask where
  "choresEntry = \<lparr> t_category = ''Chores'', t_title = ''Paint'', t_description = None,
                   t_time = None, t_duration_minutes = None, t_priority = None,
                   t_pool_item_id = Some ''p2'', t_is_i_wonder = None \<rparr>"

definition answer :: string where
  "answer = ''Here is the plan: ```json PLAN ``` Enjoy.''"

definition parseAnswer :: "string \<Rightarrow> Parsed option" where
  "parseAnswer s =
     (if s = ''PLAN''
      then Some (Truthy \<lparr> capacity_notes = Some ''A light day.'', mental_state_notes = None,
                          llm_tasks = Entries [walkEntry, stretch, choresEntry] \<rparr>)
      else if s = ''NOTASKS''
      then Some (Truthy \<lparr> capacity_notes = None, mental_state_notes = None, llm_tasks = Missing \<rparr>)
      else if s = ''EMPTY''
      then Some (Truthy \<lparr> capacity_notes = None, mental_state_notes = None, llm_tasks = Entries [] \<rparr>)
      else None)"

definition home :: Database where
  "home = \<lparr> journalEntries = [], categories = [exercise], dailyPlans = [], taskRows = [],
            poolItems = [walk, paint, dentist, concert] \<rparr>"


section \<open>Dates: properties\<close>

lemma msPerDay_eq: "msPerDay = 86400000"
  by (simp add: msPerDay_def)

lemma startOfDay_eq: "startOfDay tz forDate = ((forDate div 86400000 * 86400000 + tz) div 86400000) * 86400000 - tz"
  by (simp add: startOfDay_def setHours_def newDate_def toISODate_def msPerDay_eq)

lemma endOfDay_eq: "endOfDay tz forDate = startOfDay tz forDate + 86399999"
proof -
  have "(startOfDay tz forDate + tz) div 86400000 * 86400000 = startOfDay tz forDate + tz"
    by (simp add: startOfDay_eq)
  then show ?thesis
    by (simp add: endOfDay_def setHours_def msPerDay_eq)
qed

lemma startOfDay_utc: "startOfDay 0 forDate = toISODate forDate * msPerDay"
  by (simp add: startOfDay_eq toISODate_def msPerDay_eq)

lemma in_day_iff:
  fixes x d :: int
  shows "(d * 86400000 \<le> x \<and> x \<le> d * 86400000 + 86399999) = (x div 86400000 = d)"
proof -
  define q where "q = x div 86400000"
  define r where "r = x mod 86400000"
  have x: "x = q * 86400000 + r" by (simp add: q_def r_def)
  have r: "0 \<le> r" "r < 86400000" by (simp_all add: r_def)
  have "(d * 86400000 \<le> x \<and> x \<le> d * 86400000 + 86399999) = (q = d)"
  proof
    assume a: "d * 86400000 \<le> x \<and> x \<le> d * 86400000 + 86399999"
    have "\<not> q < d"
    proof
      assume "q < d"
      then have "q + 1 \<le> d" by simp
      then have "(q + 1) * 86400000 \<le> d * 86400000" by (simp only: mult_right_mono)
      with a x r show False by (simp add: algebra_simps)
    qed
    moreover have "\<not> d < q"
    proof
      assume "d < q"
      then have "d + 1 \<le> q" by simp
      then have "(d + 1) * 86400000 \<le> q * 86400000" by (simp only: mult_right_mono)
      with a x r show False by (simp add: algebra_simps)
    qed
    ultimately show "q = d" by simp
  next
    assume "q = d"
    with x r show "d * 86400000 \<le> x \<and> x \<le> d * 86400000 + 86399999" by simp
  qed
  then show ?thesis by (simp add: q_def)
qed

section \<open>The pool availability resolver: properties\<close>

lemma set_tasks_getAvailableForDate:
  "set (tasks (getAvailableForDate tz forDate pool)) =
     {item \<in> set pool. pi_status item = active \<and> pi_type item = task \<and> offCooldown forDate item}"
  by (auto simp: getAvailableForDate_def Let_def)

lemma set_aspirations_getAvailableForDate:
  "set (aspirations (getAvailableForDate tz forDate pool)) =
     {item \<in> set pool. pi_status item = active \<and> pi_type item = aspiration
        \<and> offCooldown forDate item}"
  by (auto simp: getAvailableForDate_def Let_def)

lemma set_events_getAvailableForDate:
  "set (events (getAvailableForDate tz forDate pool)) =
     {item \<in> set pool. pi_status item = active \<and> isEventForDate tz forDate item}"
  by (auto simp: getAvailableForDate_def Let_def)

lemma offCooldown_iff:
  "offCooldown forDate item =
     (pi_lastUsedAt item = None \<or>
      (\<exists>l. pi_lastUsedAt item = Some l \<and>
           (case pi_cooldownDays item of
              Some c \<Rightarrow> c
            | None \<Rightarrow> (case pi_type item of task \<Rightarrow> 1 | aspiration \<Rightarrow> 3 | event \<Rightarrow> 0))
           \<le> (forDate - l) div 86400000))"
  by (cases "pi_type item")
     (auto simp: offCooldown_def cooldownDays_def daysSinceUsed_def msPerDay_eq split: option.splits)

text \<open>
  C3. For every target date, a pool item is in the resolver's list of tasks or of
  aspirations if and only if it is an active task or aspiration of the pool that has never
  been used, or whose whole days from its last use to the target date are at least its
  effective cooldown: its own override if set, else 1 day for a task and 3 days for an
  aspiration. So no task or aspiration is returned whose days since its last use are
  strictly below its effective cooldown.
\<close>

theorem cooldown_availability:
  "(item \<in> set (tasks (getAvailableForDate tz forDate pool))
          \<union> set (aspirations (getAvailableForDate tz forDate pool))) =
     (item \<in> set pool \<and> pi_status item = active
      \<and> (pi_type item = task \<or> pi_type item = aspiration)
      \<and> (pi_lastUsedAt item = None \<or>
         (\<exists>l. pi_lastUsedAt item = Some l \<and>
              (case pi_cooldownDays item of
                 Some c \<Rightarrow> c
               | None \<Rightarrow> (case pi_type item of task \<Rightarrow> 1 | aspiration \<Rightarrow> 3 | event \<Rightarrow> 0))
              \<le> (forDate - l) div 86400000)))"
  unfolding set_tasks_getAvailableForDate set_aspirations_getAvailableForDate offCooldown_iff
  by auto

text \<open>
  The two scenarios of the specification: a task last used two days before the target
  date is available, an aspiration last used two days before is not.
\<close>

theorem cooldown_availability_witness:
  "walk \<in> set (tasks (getAvailableForDate 0 jan15 [walk, paint]))
          \<union> set (aspirations (getAvailableForDate 0 jan15 [walk, paint]))
   \<and> paint \<notin> set (tasks (getAvailableForDate 0 jan15 [walk, paint]))
          \<union> set (aspirations (getAvailableForDate 0 jan15 [walk, paint]))"
  using cooldown_availability [of walk 0 jan15 "[walk, paint]"]
        cooldown_availability [of paint 0 jan15 "[walk, paint]"]
  by (simp add: walk_def paint_def jan15_def)

text \<open>
  Where local time is UTC, the events returned are the active events whose start is on the
  UTC calendar day of the target date.
\<close>

lemma events_utc:
  "set (events (getAvailableForDate 0 forDate pool)) =
     {item \<in> set pool. pi_status item = active \<and> pi_type item = event
        \<and> (\<exists>s. pi_scheduledAt item = Some s \<and> toISODate s = toISODate forDate)}"
  by (auto simp: set_events_getAvailableForDate isEventForDate_def endOfDay_eq startOfDay_utc
      msPerDay_eq in_day_iff toISODate_def split: option.splits)

text \<open>
  C4. The events list is to hold exactly the active events that start within the calendar
  day of the target date. The window is computed from the UTC date of the target date,
  read as midnight UTC and then moved to local midnight, so west of UTC it is the day
  before. With local time five hours behind UTC and the target date at local midnight of
  15 January, which is 15 January in UTC too, the event of 15 January is left out and the
  event of 14 January is returned; each event is on its day in local time and in UTC.
\<close>

theorem events_of_previous_day:
  "localDay (- 18000000) (jan15 + 18000000) = 19737
   \<and> getHours (- 18000000) (jan15 + 18000000) = 0
   \<and> toISODate (jan15 + 18000000) = 19737
   \<and> map (localDay (- 18000000)) (List.map_filter pi_scheduledAt [dentist, concert]) = [19737, 19736]
   \<and> map toISODate (List.map_filter pi_scheduledAt [dentist, concert]) = [19737, 19736]
   \<and> events (getAvailableForDate (- 18000000) (jan15 + 18000000) [dentist, concert]) = [concert]"
  by (simp add: localDay_def getHours_def toISODate_def msPerDay_eq jan15_def dentist_def
      concert_def getAvailableForDate_def isEventForDate_def startOfDay_eq endOfDay_eq)


section \<open>The capacity estimate\<close>




section \<open>Times of day: properties\<close>










section \<open>The commit: what a run writes\<close>

lemma addRows_Nil: "addRows [] tx = tx"
  by (simp add: addRows_def)

lemma addRows_Cons: "addRows rows (addRows [row] tx) = addRows (row # rows) tx"
  by (simp add: addRows_def)

lemma task_create_eq:
  "task_create fails row tx =
     (if fails (tx_writes tx) then Inl (DbError (tx_writes tx)) else Inr (addRows [row] tx))"
  by (simp add: task_create_def addRows_def)

lemma llmRows_Nil: "llmRows tz ctx dateStr newId [] = []"
  by (simp add: llmRows_def List.map_filter_simps)

lemma llmRows_Cons:
  "llmRows tz ctx dateStr newId (t # ts) =
     (case categoryIdOf ctx t of
        None \<Rightarrow> llmRows tz ctx dateStr newId ts
      | Some cid \<Rightarrow> taskRow tz ctx dateStr newId cid t # llmRows tz ctx dateStr newId ts)"
  by (simp add: llmRows_def List.map_filter_simps split: option.splits)

lemma llmMarks_Nil: "llmMarks ctx [] = []"
  by (simp add: llmMarks_def List.map_filter_simps)

lemma llmMarks_Cons:
  "llmMarks ctx (t # ts) =
     (case categoryIdOf ctx t of
        None \<Rightarrow> llmMarks ctx ts
      | Some cid \<Rightarrow>
          (case matchedPoolItem ctx t of
             None \<Rightarrow> llmMarks ctx ts
           | Some item \<Rightarrow> pi_id item # llmMarks ctx ts))"
  by (simp add: llmMarks_def List.map_filter_simps split: option.splits)

lemma createTasks_Inr:
  "createTasks fails tz ctx dateStr newId ts tx mark = Inr (tx', mark') \<Longrightarrow>
     tx' = addRows (llmRows tz ctx dateStr newId ts) tx \<and> mark' = mark @ llmMarks ctx ts"
proof (induction ts arbitrary: tx mark)
  case Nil
  then show ?case by (simp add: llmRows_Nil llmMarks_Nil addRows_Nil)
next
  case (Cons t ts)
  show ?case
  proof (cases "categoryIdOf ctx t")
    case None
    with Cons show ?thesis by (simp add: llmRows_Cons llmMarks_Cons)
  next
    case (Some cid)
    with Cons.prems have nf: "\<not> fails (tx_writes tx)"
      by (auto simp: task_create_eq split: if_splits)
    with Cons.prems Some have
      "createTasks fails tz ctx dateStr newId ts (addRows [taskRow tz ctx dateStr newId cid t] tx)
         (case matchedPoolItem ctx t of None \<Rightarrow> mark | Some item \<Rightarrow> mark @ [pi_id item])
       = Inr (tx', mark')"
      by (simp add: task_create_eq)
    from Cons.IH [OF this] Some show ?thesis
      by (simp add: llmRows_Cons llmMarks_Cons addRows_Cons split: option.splits)
  qed
qed

lemma createTasks_run:
  "(\<forall>n. tx_writes tx \<le> n \<and> n < tx_writes tx + length (llmRows tz ctx dateStr newId ts)
        \<longrightarrow> \<not> fails n) \<Longrightarrow>
   createTasks fails tz ctx dateStr newId ts tx mark =
     Inr (addRows (llmRows tz ctx dateStr newId ts) tx, mark @ llmMarks ctx ts)"
proof (induction ts arbitrary: tx mark)
  case Nil
  then show ?case by (simp add: llmRows_Nil llmMarks_Nil addRows_Nil)
next
  case (Cons t ts)
  show ?case
  proof (cases "categoryIdOf ctx t")
    case None
    with Cons show ?thesis by (simp add: llmRows_Cons llmMarks_Cons)
  next
    case (Some cid)
    with Cons.prems have nf: "\<not> fails (tx_writes tx)"
      by (simp add: llmRows_Cons)
    have "\<forall>n. tx_writes (addRows [taskRow tz ctx dateStr newId cid t] tx) \<le> n
            \<and> n < tx_writes (addRows [taskRow tz ctx dateStr newId cid t] tx)
                    + length (llmRows tz ctx dateStr newId ts) \<longrightarrow> \<not> fails n"
      using Cons.prems Some by (simp add: llmRows_Cons addRows_def)
    from Cons.IH [OF this] nf Some show ?thesis
      by (simp add: task_create_eq llmRows_Cons llmMarks_Cons addRows_Cons split: option.splits)
  qed
qed

lemma eventRows_Nil: "eventRows ctx newId [] = []"
  by (simp add: eventRows_def List.map_filter_simps)

lemma eventRows_Cons:
  "eventRows ctx newId ((p, d) # evs) =
     (case eventCategoryId ctx p of
        None \<Rightarrow> eventRows ctx newId evs
      | Some cid \<Rightarrow> eventRow newId cid p d # eventRows ctx newId evs)"
  by (simp add: eventRows_def List.map_filter_simps split: option.splits)

lemma eventMarks_Nil: "eventMarks ctx [] = []"
  by (simp add: eventMarks_def List.map_filter_simps)

lemma eventMarks_Cons:
  "eventMarks ctx ((p, d) # evs) =
     (case eventCategoryId ctx p of
        None \<Rightarrow> eventMarks ctx evs
      | Some cid \<Rightarrow> pi_id p # eventMarks ctx evs)"
  by (simp add: eventMarks_def List.map_filter_simps split: option.splits)

lemma placeEvents_Inr:
  "placeEvents fails ctx newId evs tx mark = Inr (tx', mark') \<Longrightarrow>
     tx' = addRows (eventRows ctx newId evs) tx \<and> mark' = mark @ eventMarks ctx evs"
proof (induction evs arbitrary: tx mark)
  case Nil
  then show ?case by (simp add: eventRows_Nil eventMarks_Nil addRows_Nil)
next
  case (Cons ev evs)
  obtain p d where ev: "ev = (p, d)" by (cases ev)
  show ?case
  proof (cases "eventCategoryId ctx p")
    case None
    with Cons ev show ?thesis by (simp add: eventRows_Cons eventMarks_Cons)
  next
    case (Some cid)
    with Cons.prems ev have nf: "\<not> fails (tx_writes tx)"
      by (auto simp: task_create_eq split: if_splits)
    with Cons.prems Some ev have
      "placeEvents fails ctx newId evs (addRows [eventRow newId cid p d] tx) (mark @ [pi_id p])
       = Inr (tx', mark')"
      by (simp add: task_create_eq)
    from Cons.IH [OF this] Some ev show ?thesis
      by (simp add: eventRows_Cons eventMarks_Cons addRows_Cons)
  qed
qed

lemma placeEvents_run:
  "(\<forall>n. tx_writes tx \<le> n \<and> n < tx_writes tx + length (eventRows ctx newId evs)
        \<longrightarrow> \<not> fails n) \<Longrightarrow>
   placeEvents fails ctx newId evs tx mark =
     Inr (addRows (eventRows ctx newId evs) tx, mark @ eventMarks ctx evs)"
proof (induction evs arbitrary: tx mark)
  case Nil
  then show ?case by (simp add: eventRows_Nil eventMarks_Nil addRows_Nil)
next
  case (Cons ev evs)
  obtain p d where ev: "ev = (p, d)" by (cases ev)
  show ?case
  proof (cases "eventCategoryId ctx p")
    case None
    with Cons ev show ?thesis by (simp add: eventRows_Cons eventMarks_Cons)
  next
    case (Some cid)
    with Cons.prems ev have nf: "\<not> fails (tx_writes tx)"
      by (simp add: eventRows_Cons)
    have "\<forall>n. tx_writes (addRows [eventRow newId cid p d] tx) \<le> n
            \<and> n < tx_writes (addRows [eventRow newId cid p d] tx)
                    + length (eventRows ctx newId evs) \<longrightarrow> \<not> fails n"
      using Cons.prems Some ev by (simp add: eventRows_Cons addRows_def)
    from Cons.IH [OF this] nf Some ev show ?thesis
      by (simp add: task_create_eq eventRows_Cons eventMarks_Cons addRows_Cons)
  qed
qed


lemma markUsed_Nil: "map (markUsed [] d) pool = pool"
  by (induction pool) (simp_all add: markUsed_def)

lemma markPoolItems_eq:
  "markPoolItems fails ids forDate tx =
     (if ids = [] then Inr tx
      else if fails (tx_writes tx) then Inl (DbError (tx_writes tx))
      else Inr \<lparr> tx_db = (tx_db tx)\<lparr> poolItems := map (markUsed ids forDate) (poolItems (tx_db tx)) \<rparr>,
                 tx_writes = tx_writes tx + 1 \<rparr>)"
  by (simp add: markPoolItems_def poolItem_updateMany_def)

lemma dailyPlan_create_eq:
  "dailyPlan_create fails plan tx =
     (if fails (tx_writes tx) then Inl (DbError (tx_writes tx))
      else Inr \<lparr> tx_db = (tx_db tx)\<lparr> dailyPlans := dailyPlans (tx_db tx) @ [plan] \<rparr>,
                 tx_writes = tx_writes tx + 1 \<rparr>)"
  by (simp add: dailyPlan_create_def)

lemma commit_Inr:
  assumes "commit fails tz newId forDate ctx out ts tx = Inr (tx', r)"
  shows "tx_db tx' = committed tz newId forDate ctx out ts (tx_db tx)"
    and "r = \<lparr> planId = newId, taskCount = totalTasks ctx ts \<rparr>"
    and "tx_writes tx' = tx_writes tx + writes tz newId forDate ctx ts"
proof -
  from assms obtain tx1 where
    1: "dailyPlan_create fails (newPlan newId forDate ctx out) tx = Inr tx1"
    by (auto simp: commit_def newPlan_def split: sum.splits)
  from assms 1 obtain tx2 ids2 where
    2: "createTasks fails tz ctx (toISODate forDate) newId ts tx1 [] = Inr (tx2, ids2)"
    by (auto simp: commit_def newPlan_def split: sum.splits)
  from assms 1 2 obtain tx3 ids3 where
    3: "placeEvents fails ctx newId (eventsToPlace ctx) tx2 ids2 = Inr (tx3, ids3)"
    by (auto simp: commit_def newPlan_def split: sum.splits)
  from assms 1 2 3 have
    4: "markPoolItems fails ids3 forDate tx3 = Inr tx'"
    and r: "r = \<lparr> planId = newId, taskCount = totalTasks ctx ts \<rparr>"
    by (auto simp: commit_def newPlan_def split: sum.splits)
  from 1 have tx1: "tx1 = \<lparr> tx_db = (tx_db tx)\<lparr> dailyPlans := dailyPlans (tx_db tx) @ [newPlan newId forDate ctx out] \<rparr>,
                 tx_writes = tx_writes tx + 1 \<rparr>"
    by (simp add: dailyPlan_create_eq split: if_splits)
  from createTasks_Inr [OF 2] have tx2: "tx2 = addRows (llmRows tz ctx (toISODate forDate) newId ts) tx1"
    and ids2: "ids2 = llmMarks ctx ts" by simp_all
  from placeEvents_Inr [OF 3] have tx3: "tx3 = addRows (eventRows ctx newId (eventsToPlace ctx)) tx2"
    and ids3: "ids3 = consumed ctx ts" by (simp_all add: ids2 consumed_def)
  from 4 have tx': "tx' = (if consumed ctx ts = [] then tx3
      else \<lparr> tx_db = (tx_db tx3)\<lparr> poolItems := map (markUsed (consumed ctx ts) forDate) (poolItems (tx_db tx3)) \<rparr>,
             tx_writes = tx_writes tx3 + 1 \<rparr>)"
    by (auto simp: markPoolItems_eq ids3 split: if_splits)
  show "r = \<lparr> planId = newId, taskCount = totalTasks ctx ts \<rparr>" by (rule r)
  show "tx_db tx' = committed tz newId forDate ctx out ts (tx_db tx)"
    by (simp add: tx' tx3 tx2 tx1 addRows_def committed_def markUsed_Nil)
  show "tx_writes tx' = tx_writes tx + writes tz newId forDate ctx ts"
    by (simp add: tx' tx3 tx2 tx1 addRows_def writes_def)
qed

lemma commit_run:
  assumes "\<forall>n. tx_writes tx \<le> n \<and> n < tx_writes tx + writes tz newId forDate ctx ts \<longrightarrow> \<not> fails n"
  shows "commit fails tz newId forDate ctx out ts tx =
           Inr (\<lparr> tx_db = committed tz newId forDate ctx out ts (tx_db tx),
                  tx_writes = tx_writes tx + writes tz newId forDate ctx ts \<rparr>,
                \<lparr> planId = newId, taskCount = totalTasks ctx ts \<rparr>)"
proof -
  define tx1 where "tx1 = \<lparr> tx_db = (tx_db tx)\<lparr> dailyPlans := dailyPlans (tx_db tx) @ [newPlan newId forDate ctx out] \<rparr>,
                 tx_writes = tx_writes tx + 1 \<rparr>"
  define tx2 where "tx2 = addRows (llmRows tz ctx (toISODate forDate) newId ts) tx1"
  define tx3 where "tx3 = addRows (eventRows ctx newId (eventsToPlace ctx)) tx2"
  have 1: "dailyPlan_create fails (newPlan newId forDate ctx out) tx = Inr tx1"
    using assms by (simp add: dailyPlan_create_eq tx1_def writes_def)
  have "\<forall>n. tx_writes tx1 \<le> n \<and> n < tx_writes tx1 + length (llmRows tz ctx (toISODate forDate) newId ts)
        \<longrightarrow> \<not> fails n"
    using assms by (simp add: tx1_def writes_def)
  then have 2: "createTasks fails tz ctx (toISODate forDate) newId ts tx1 [] = Inr (tx2, llmMarks ctx ts)"
    by (simp add: createTasks_run tx2_def)
  have "\<forall>n. tx_writes tx2 \<le> n \<and> n < tx_writes tx2 + length (eventRows ctx newId (eventsToPlace ctx))
        \<longrightarrow> \<not> fails n"
    using assms by (simp add: tx2_def tx1_def writes_def addRows_def)
  then have 3: "placeEvents fails ctx newId (eventsToPlace ctx) tx2 (llmMarks ctx ts) = Inr (tx3, consumed ctx ts)"
    by (simp add: placeEvents_run tx3_def consumed_def)
  have nf: "consumed ctx ts \<noteq> [] \<longrightarrow> \<not> fails (tx_writes tx3)"
    using assms by (simp add: tx3_def tx2_def tx1_def writes_def addRows_def)
  have 4: "markPoolItems fails (consumed ctx ts) forDate tx3 =
     Inr \<lparr> tx_db = committed tz newId forDate ctx out ts (tx_db tx),
                  tx_writes = tx_writes tx + writes tz newId forDate ctx ts \<rparr>"
    using nf
    by (simp add: markPoolItems_eq tx3_def tx2_def tx1_def addRows_def committed_def writes_def markUsed_Nil)
  show ?thesis
    unfolding commit_def using 1 2 3 4 by (simp add: newPlan_def)
qed


lemma generatePlan_Inr:
  assumes "generatePlan fails tz JSON_parse generated newId forDate db = (db', Inr r)"
  shows "\<exists>raw out ts. generated = Some raw
           \<and> validPlan (parseLLMResponse JSON_parse raw) = Some (out, ts)
           \<and> db' = committed tz newId forDate (gatherContext tz forDate db) out ts db
           \<and> r = \<lparr> planId = newId, taskCount = totalTasks (gatherContext tz forDate db) ts \<rparr>"
proof -
  define ctx where "ctx = gatherContext tz forDate db"
  from assms obtain tx' where
    b: "generatePlanBody fails tz JSON_parse generated newId forDate ctx \<lparr> tx_db = db, tx_writes = 0 \<rparr>
          = Inr (tx', r)" and d: "db' = tx_db tx'"
    by (auto simp: generatePlan_def transaction_def ctx_def split: sum.splits)
  from b obtain raw where g: "generated = Some raw"
    by (auto simp: generatePlanBody_def split: option.splits)
  from b g obtain out ts where v: "validPlan (parseLLMResponse JSON_parse raw) = Some (out, ts)"
    by (auto simp: generatePlanBody_def split: option.splits)
  from b g v have c: "commit fails tz newId forDate ctx out ts \<lparr> tx_db = db, tx_writes = 0 \<rparr> = Inr (tx', r)"
    by (simp add: generatePlanBody_def)
  from commit_Inr(1,2) [OF c] d g v show ?thesis
    by (simp add: ctx_def)
qed

lemma generatePlan_run:
  assumes "validPlan (parseLLMResponse JSON_parse raw) = Some (out, ts)"
      and "\<forall>n. n < writes tz newId forDate (gatherContext tz forDate db) ts \<longrightarrow> \<not> fails n"
  shows "generatePlan fails tz JSON_parse (Some raw) newId forDate db =
           (committed tz newId forDate (gatherContext tz forDate db) out ts db,
            Inr \<lparr> planId = newId, taskCount = totalTasks (gatherContext tz forDate db) ts \<rparr>)"
  using assms commit_run [of "\<lparr> tx_db = db, tx_writes = 0 \<rparr>" tz newId forDate "gatherContext tz forDate db" ts fails out]
  by (simp add: generatePlan_def transaction_def generatePlanBody_def)

section \<open>The example run\<close>

lemma ctx_home: "gatherContext 0 jan15 home =
   \<lparr> ctx_capacityScore = medium, ctx_categories = [exercise],
     ctx_poolItems = \<lparr> tasks = [walk], aspirations = [], events = [dentist] \<rparr> \<rparr>"
  by (simp add: gatherContext_def home_def recentEntries_def recentTasks_def average_def
      completionRate_def score_def capacityScore_def exercise_def List.map_filter_simps
      getAvailableForDate_def walk_def paint_def dentist_def concert_def offCooldown_def
      daysSinceUsed_def cooldownDays_def isEventForDate_def startOfDay_eq endOfDay_eq
      jan15_def msPerDay_eq)

lemma jsonStr_answer: "jsonStr answer = ''PLAN''"
  by (simp add: jsonStr_def fencedBlock_def answer_def trim_def isWhiteSpace_def)


lemma parse_answer:
  "validPlan (parseLLMResponse parseAnswer answer) =
     Some (\<lparr> capacity_notes = Some ''A light day.'', mental_state_notes = None,
              llm_tasks = Entries [walkEntry, stretch, choresEntry] \<rparr>,
           [walkEntry, stretch, choresEntry])"
  by (simp add: parseLLMResponse_def jsonStr_answer parseAnswer_def validPlan_def)

lemma categoryIdOf_home:
  "categoryIdOf (gatherContext 0 jan15 home) walkEntry = Some ''c1''"
  "categoryIdOf (gatherContext 0 jan15 home) stretch = Some ''c1''"
  "categoryIdOf (gatherContext 0 jan15 home) choresEntry = None"
  by (simp_all add: ctx_home categoryIdOf_def categoryByName_def exercise_def walkEntry_def
      stretch_def choresEntry_def)

lemma titleKey_walk: "titleKey '' WALK '' = ''walk''" "titleKey ''Walk'' = ''walk''"
  by code_simp+

lemma matched_home:
  "matchedPoolItem (gatherContext 0 jan15 home) walkEntry = Some walk"
  "matchedPoolItem (gatherContext 0 jan15 home) stretch = None"
  by (simp_all add: ctx_home matchedPoolItem_def poolItemsByTitle_def candidates_def
      walkEntry_def stretch_def titleKey_walk walk_def)

lemma eventsToPlace_home: "eventsToPlace (gatherContext 0 jan15 home) = [(dentist, 19737 * 86400000 + 36000000)]"
  by (simp add: ctx_home eventsToPlace_def List.map_filter_simps dentist_def)

lemma eventCategoryId_home: "eventCategoryId (gatherContext 0 jan15 home) dentist = Some ''c1''"
  by (simp add: ctx_home eventCategoryId_def dentist_def exercise_def)

lemma consumed_home:
  "consumed (gatherContext 0 jan15 home) [walkEntry, stretch, choresEntry] = [''p1'', ''p3'']"
  by (simp add: consumed_def llmMarks_Cons llmMarks_Nil categoryIdOf_home matched_home
      eventsToPlace_home eventMarks_Cons eventMarks_Nil eventCategoryId_home)
     (simp add: walk_def dentist_def)


section \<open>Atomicity and validation\<close>

lemma createTasks_Inl:
  "createTasks fails tz ctx dateStr newId ts tx mark = Inl e \<Longrightarrow> \<exists>n. e = DbError n"
proof (induction ts arbitrary: tx mark)
  case Nil
  then show ?case by simp
next
  case (Cons t ts)
  then show ?case
    by (auto simp: task_create_eq split: option.splits if_splits)
qed

lemma placeEvents_Inl:
  "placeEvents fails ctx newId evs tx mark = Inl e \<Longrightarrow> \<exists>n. e = DbError n"
proof (induction evs arbitrary: tx mark)
  case Nil
  then show ?case by simp
next
  case (Cons ev evs)
  obtain p d where "ev = (p, d)" by (cases ev)
  with Cons show ?case
    by (auto simp: task_create_eq split: option.splits if_splits)
qed

lemma commit_Inl:
  assumes "commit fails tz newId forDate ctx out ts tx = Inl e"
  shows "\<exists>n. e = DbError n"
proof -
  have "\<exists>n. e = DbError n"
    if "dailyPlan_create fails (newPlan newId forDate ctx out) tx = Inl e"
    using that by (auto simp: dailyPlan_create_eq split: if_splits)
  moreover have "\<exists>n. e = DbError n" if "markPoolItems fails ids forDate tx3 = Inl e" for ids tx3
    using that by (auto simp: markPoolItems_eq split: if_splits)
  ultimately show ?thesis
    using assms createTasks_Inl placeEvents_Inl
    unfolding commit_def newPlan_def
    by (fastforce split: sum.splits prod.splits)
qed



text \<open>
  C5. \<^verbatim>\<open>generatePlan\<close> throws its own error exactly when the text of the model is
  unparsable or the parsed value has no list of entries: \<^verbatim>\<open>JSON.parse\<close> throws on the
  candidate text, or returns a falsy value, or a value whose \<^verbatim>\<open>tasks\<close> is missing or is
  no array. The candidate text is the trimmed content of the fenced block, or else the
  whole trimmed text. The database is then unchanged, and the message ends with the first
  500 characters of the raw response.
\<close>

theorem validation_failure:
  "((\<exists>msg. snd (generatePlan fails tz JSON_parse (Some raw) newId forDate db) = Inl (Error msg)) =
      (JSON_parse (jsonStr raw) = None \<or> JSON_parse (jsonStr raw) = Some Falsy
       \<or> (\<exists>out. JSON_parse (jsonStr raw) = Some (Truthy out)
                \<and> (llm_tasks out = Missing \<or> llm_tasks out = NotAnArray))))
   \<and> (\<forall>msg. snd (generatePlan fails tz JSON_parse (Some raw) newId forDate db) = Inl (Error msg) \<longrightarrow>
         generatePlan fails tz JSON_parse (Some raw) newId forDate db =
           (db, Inl (Error (''LLM did not return a valid plan with tasks. Raw response: ''
                            @ take 500 raw))))
   \<and> jsonStr raw = (case fencedBlock raw of Some body \<Rightarrow> trim body | None \<Rightarrow> trim raw)"
proof -
  define G where "G = generatePlan fails tz JSON_parse (Some raw) newId forDate db"
  define bad where "bad = (JSON_parse (jsonStr raw) = None \<or> JSON_parse (jsonStr raw) = Some Falsy
       \<or> (\<exists>out. JSON_parse (jsonStr raw) = Some (Truthy out)
                \<and> (llm_tasks out = Missing \<or> llm_tasks out = NotAnArray)))"
  have v: "(validPlan (parseLLMResponse JSON_parse raw) = None) = bad"
    by (auto simp: validPlan_def parseLLMResponse_def bad_def
        split: option.splits Parsed.splits TasksField.splits)
  have 1: "G = (db, Inl (invalidPlan raw))" if bad
    using that v by (simp add: G_def generatePlan_def transaction_def generatePlanBody_def)
  have 2: "\<not> (\<exists>msg. snd G = Inl (Error msg))" if "\<not> bad"
  proof -
    from that v obtain out ts where "validPlan (parseLLMResponse JSON_parse raw) = Some (out, ts)"
      by (cases "validPlan (parseLLMResponse JSON_parse raw)") auto
    then have "snd G = Inl e \<Longrightarrow> \<exists>n. e = DbError n" for e
      using commit_Inl [of fails tz newId forDate "gatherContext tz forDate db" out ts
          "\<lparr> tx_db = db, tx_writes = 0 \<rparr>" e]
      by (auto simp: G_def generatePlan_def transaction_def generatePlanBody_def split: sum.splits)
    then show ?thesis by auto
  qed
  have "(\<exists>msg. snd G = Inl (Error msg)) = bad"
    using 1 2 by (auto simp: invalidPlan_def)
  moreover have "\<forall>msg. snd G = Inl (Error msg) \<longrightarrow>
      G = (db, Inl (Error (''LLM did not return a valid plan with tasks. Raw response: '' @ take 500 raw)))"
    using 1 2 by (auto simp: invalidPlan_def)
  ultimately show ?thesis
    unfolding G_def bad_def by (simp add: jsonStr_def)
qed

text \<open>An answer without \<^verbatim>\<open>tasks\<close>, and an answer that is no JSON.\<close>

theorem validation_failure_witness:
  "generatePlan (\<lambda>_. False) 0 parseAnswer (Some ''```json NOTASKS ```'') ''plan1'' jan15 home =
     (home, Inl (Error ''LLM did not return a valid plan with tasks. Raw response: ```json NOTASKS ```''))
   \<and> generatePlan (\<lambda>_. False) 0 parseAnswer (Some ''no plan today'') ''plan1'' jan15 home =
     (home, Inl (Error ''LLM did not return a valid plan with tasks. Raw response: no plan today''))"
proof -
  have j: "jsonStr ''```json NOTASKS ```'' = ''NOTASKS''" "jsonStr ''no plan today'' = ''no plan today''"
    by (simp_all add: jsonStr_def fencedBlock_def trim_def isWhiteSpace_def)
  have p: "parseAnswer ''NOTASKS'' =
      Some (Truthy \<lparr> capacity_notes = None, mental_state_notes = None, llm_tasks = Missing \<rparr>)"
    "parseAnswer ''no plan today'' = None"
    by (simp_all add: parseAnswer_def)
  have a: "\<exists>msg. snd (generatePlan (\<lambda>_. False) 0 parseAnswer (Some ''```json NOTASKS ```'') ''plan1'' jan15 home)
      = Inl (Error msg)"
    using validation_failure [of "\<lambda>_. False" 0 parseAnswer "''```json NOTASKS ```''" "''plan1''" jan15 home,
        THEN conjunct1] j p
    by simp
  have b: "\<exists>msg. snd (generatePlan (\<lambda>_. False) 0 parseAnswer (Some ''no plan today'') ''plan1'' jan15 home)
      = Inl (Error msg)"
    using validation_failure [of "\<lambda>_. False" 0 parseAnswer "''no plan today''" "''plan1''" jan15 home,
        THEN conjunct1] j p
    by simp
  show ?thesis
    using a b
      validation_failure [of "\<lambda>_. False" 0 parseAnswer "''```json NOTASKS ```''" "''plan1''" jan15 home,
        THEN conjunct2, THEN conjunct1]
      validation_failure [of "\<lambda>_. False" 0 parseAnswer "''no plan today''" "''plan1''" jan15 home,
        THEN conjunct2, THEN conjunct1]
    by auto
qed

section \<open>Pool matching\<close>











text \<open>The example run when no write fails.\<close>

lemma run_home:
  "generatePlan (\<lambda>_. False) 0 parseAnswer (Some answer) ''plan1'' jan15 home =
     (committed 0 ''plan1'' jan15 (gatherContext 0 jan15 home)
        \<lparr> capacity_notes = Some ''A light day.'', mental_state_notes = None,
           llm_tasks = Entries [walkEntry, stretch, choresEntry] \<rparr>
        [walkEntry, stretch, choresEntry] home,
      Inr \<lparr> planId = ''plan1'',
            taskCount = totalTasks (gatherContext 0 jan15 home) [walkEntry, stretch, choresEntry] \<rparr>)"
  using generatePlan_run [OF parse_answer, of 0 "''plan1''" jan15 home "\<lambda>_. False"] by simp


section \<open>Dropped entries, pool usage and plans of events only\<close>

lemma fold_upd_dom:
  "(fold (\<lambda>c m. m(f c \<mapsto> g c)) xs m0 k \<noteq> None) = (k \<in> f ` set xs \<or> m0 k \<noteq> None)"
  by (induction xs arbitrary: m0) auto

lemma fold_upd_ran:
  "fold (\<lambda>c m. m(f c \<mapsto> g c)) xs m0 k = Some v \<Longrightarrow> v \<in> g ` set xs \<or> m0 k = Some v"
proof (induction xs arbitrary: m0)
  case Nil
  then show ?case by simp
next
  case (Cons x xs)
  from Cons.IH [of "m0(f x \<mapsto> g x)"] Cons.prems show ?case
    by (auto split: if_splits)
qed

lemma categoryByName_known:
  "(categoryByName ctx name \<noteq> None) = (name \<in> cat_name ` set (ctx_categories ctx))"
  unfolding categoryByName_def
  using fold_upd_dom [of cat_name cat_id "ctx_categories ctx" Map.empty name] by simp

lemma categoryIdOf_known:
  assumes "\<forall>c \<in> set (ctx_categories ctx). cat_id c \<noteq> []"
  shows "(categoryIdOf ctx t \<noteq> None) = (t_category t \<in> cat_name ` set (ctx_categories ctx))"
proof (cases "categoryByName ctx (t_category t)")
  case None
  then show ?thesis
    using categoryByName_known [of ctx "t_category t"] by (simp add: categoryIdOf_def)
next
  case (Some cid)
  then have "cid \<in> cat_id ` set (ctx_categories ctx)"
    using fold_upd_ran [of cat_name cat_id "ctx_categories ctx" Map.empty "t_category t" cid]
    by (simp add: categoryByName_def)
  with assms have "cid \<noteq> []" by auto
  with Some show ?thesis
    using categoryByName_known [of ctx "t_category t"] by (simp add: categoryIdOf_def)
qed

lemma llmRows_filter:
  "llmRows tz ctx dateStr newId (filter (\<lambda>t. categoryIdOf ctx t \<noteq> None) ts)
     = llmRows tz ctx dateStr newId ts"
  by (induction ts) (auto simp: llmRows_Cons llmRows_Nil split: option.splits)

lemma length_llmRows:
  "length (llmRows tz ctx dateStr newId ts) = length (filter (\<lambda>t. categoryIdOf ctx t \<noteq> None) ts)"
  by (induction ts) (auto simp: llmRows_Cons llmRows_Nil split: option.splits)

lemma llmRows_dropped:
  "llmRows tz ctx dateStr newId (filter (\<lambda>t. categoryIdOf ctx t = None) ts) = []"
  by (induction ts) (auto simp: llmRows_Cons llmRows_Nil split: option.splits)

lemma length_filter_not:
  "length (filter P xs) = length xs - length (filter (\<lambda>x. \<not> P x) xs)"
  using sum_length_filter_compl [of P xs] by simp

text \<open>
  C7. An entry of the model whose category is not the name of an enabled category is
  dropped: it has no row among the tasks, the run does not fail for it (it succeeds when
  no write fails, however many entries are dropped), and the reported count is the number
  of entries less the number dropped, plus the events to place. Identifiers of categories
  are not empty.
\<close>

theorem unknown_category_dropped:
  assumes "validPlan (parseLLMResponse JSON_parse raw) = Some (out, ts)"
      and "\<forall>c \<in> set (categories db). cat_id c \<noteq> []"
  shows "let ctx = gatherContext tz forDate db;
             known = (\<lambda>t :: LLMTask. t_category t \<in> cat_name ` set (ctx_categories ctx));
             dropped = filter (\<lambda>t. \<not> known t) ts;
             G = generatePlan fails tz JSON_parse (Some raw) newId forDate db
         in ((\<forall>n. \<not> fails n) \<longrightarrow> (\<exists>db' r. G = (db', Inr r)))
            \<and> (\<forall>db' r. G = (db', Inr r) \<longrightarrow>
                  taskCount r = length ts - length dropped + length (eventsToPlace ctx)
                  \<and> taskRows db' = taskRows db
                       @ llmRows tz ctx (toISODate forDate) newId (filter known ts)
                       @ eventRows ctx newId (eventsToPlace ctx))
            \<and> length (llmRows tz ctx (toISODate forDate) newId (filter known ts))
                = length ts - length dropped
            \<and> llmRows tz ctx (toISODate forDate) newId dropped = []"
proof -
  define ctx where "ctx = gatherContext tz forDate db"
  define known where "known = (\<lambda>t :: LLMTask. t_category t \<in> cat_name ` set (ctx_categories ctx))"
  define dropped where "dropped = filter (\<lambda>t. \<not> known t) ts"
  define G where "G = generatePlan fails tz JSON_parse (Some raw) newId forDate db"
  have ids: "\<forall>c \<in> set (ctx_categories ctx). cat_id c \<noteq> []"
    using assms(2) by (simp add: ctx_def gatherContext_def Let_def)
  have k: "(categoryIdOf ctx t \<noteq> None) = known t" for t
    using categoryIdOf_known [OF ids] by (simp add: known_def)
  have k': "(\<lambda>t. categoryIdOf ctx t \<noteq> None) = known"
    "(\<lambda>t. categoryIdOf ctx t = None) = (\<lambda>t. \<not> known t)"
  proof -
    show "(\<lambda>t. categoryIdOf ctx t \<noteq> None) = known"
      by (rule ext) (rule k)
    show "(\<lambda>t. categoryIdOf ctx t = None) = (\<lambda>t. \<not> known t)"
    proof (rule ext)
      fix t show "(categoryIdOf ctx t = None) = (\<not> known t)"
        using k [of t] by blast
    qed
  qed
  have h: "(\<lambda>t. categoryByName ctx (t_category t) \<noteq> None) = known"
    by (rule ext) (simp only: known_def categoryByName_known)
  have lf: "llmRows tz ctx (toISODate forDate) newId (filter known ts)
      = llmRows tz ctx (toISODate forDate) newId ts"
    using llmRows_filter [of tz ctx "toISODate forDate" newId ts] unfolding k' .
  have ll: "length (llmRows tz ctx (toISODate forDate) newId ts) = length (filter known ts)"
    using length_llmRows [of tz ctx "toISODate forDate" newId ts] unfolding k' .
  have ld: "llmRows tz ctx (toISODate forDate) newId dropped = []"
    using llmRows_dropped [of tz ctx "toISODate forDate" newId ts] unfolding k' dropped_def .
  have lk: "length (filter known ts) = length ts - length dropped"
    unfolding dropped_def by (rule length_filter_not)
  have 1: "(\<forall>n. \<not> fails n) \<longrightarrow> (\<exists>db' r. G = (db', Inr r))"
    using generatePlan_run [OF assms(1), of tz newId forDate db fails] by (simp add: G_def)
  have 2: "taskCount r = length ts - length dropped + length (eventsToPlace ctx)
           \<and> taskRows db' = taskRows db
                 @ llmRows tz ctx (toISODate forDate) newId (filter known ts)
                 @ eventRows ctx newId (eventsToPlace ctx)"
    if "G = (db', Inr r)" for db' r
  proof -
    from generatePlan_Inr [OF that [unfolded G_def]] assms(1)
    have d: "db' = committed tz newId forDate ctx out ts db"
      and r: "r = \<lparr> planId = newId, taskCount = totalTasks ctx ts \<rparr>"
      by (auto simp: ctx_def)
    have "taskCount r = length (filter known ts) + length (eventsToPlace ctx)"
      unfolding r totalTasks_def h by simp
    moreover have "taskRows db' = taskRows db
                 @ llmRows tz ctx (toISODate forDate) newId (filter known ts)
                 @ eventRows ctx newId (eventsToPlace ctx)"
      unfolding lf by (simp add: d committed_def)
    ultimately show ?thesis using lk by simp
  qed
  have 3: "length (llmRows tz ctx (toISODate forDate) newId (filter known ts)) = length ts - length dropped"
    unfolding lf ll by (rule lk)
  note 4 = ld
  note u = G_def dropped_def known_def ctx_def
  show ?thesis
    unfolding Let_def
    using 1 [unfolded u] 2 [unfolded u] 3 [unfolded u] 4 [unfolded u]
    by (intro conjI allI impI) (assumption | blast)+
qed


text \<open>The example run drops one of three entries and reports two entries and one event.\<close>

theorem unknown_category_dropped_witness:
  "filter (\<lambda>t. t_category t \<notin> cat_name ` set (ctx_categories (gatherContext 0 jan15 home)))
     [walkEntry, stretch, choresEntry] = [choresEntry]
   \<and> (\<exists>db' r. generatePlan (\<lambda>_. False) 0 parseAnswer (Some answer) ''plan1'' jan15 home = (db', Inr r)
         \<and> taskCount r = 3 \<and> length (taskRows db') = 3)"
proof -
  have ids: "\<forall>c \<in> set (categories home). cat_id c \<noteq> []"
    by (simp add: home_def exercise_def)
  have f: "filter (\<lambda>t. t_category t \<notin> cat_name ` set (ctx_categories (gatherContext 0 jan15 home)))
     [walkEntry, stretch, choresEntry] = [choresEntry]"
    "filter (\<lambda>t. t_category t \<in> cat_name ` set (ctx_categories (gatherContext 0 jan15 home)))
     [walkEntry, stretch, choresEntry] = [walkEntry, stretch]"
    by (simp_all add: ctx_home exercise_def walkEntry_def stretch_def choresEntry_def)
  note u = unknown_category_dropped [OF parse_answer ids, of 0 jan15 "\<lambda>_. False" "''plan1''",
      unfolded Let_def f]
  from u [THEN conjunct1] obtain db' r where
    g: "generatePlan (\<lambda>_. False) 0 parseAnswer (Some answer) ''plan1'' jan15 home = (db', Inr r)"
    by auto
  have h: "taskRows home = []" by (simp add: home_def)
  from u [THEN conjunct2, THEN conjunct1, rule_format, OF g]
  have "taskCount r = 3" "length (taskRows db') = 3"
    by (simp_all add: eventsToPlace_home llmRows_Cons llmRows_Nil categoryIdOf_home
        eventRows_Cons eventRows_Nil eventCategoryId_home h)
  with g f(1) show ?thesis by simp
qed

lemma set_llmMarks:
  "set (llmMarks ctx ts) =
     {pi_id item | item t. t \<in> set ts \<and> categoryIdOf ctx t \<noteq> None \<and> matchedPoolItem ctx t = Some item}"
  by (induction ts) (auto simp: llmMarks_Cons llmMarks_Nil split: option.splits)

lemma set_eventMarks:
  "set (eventMarks ctx evs) =
     {pi_id p | p d. (p, d) \<in> set evs \<and> eventCategoryId ctx p \<noteq> None}"
proof (induction evs)
  case Nil
  show ?case by (simp add: eventMarks_Nil)
next
  case (Cons ev evs)
  obtain q e where ev: "ev = (q, e)" by (cases ev)
  show ?case
  proof (cases "eventCategoryId ctx q")
    case None
    then have "set (eventMarks ctx (ev # evs)) = set (eventMarks ctx evs)"
      by (simp add: ev eventMarks_Cons)
    moreover have "{pi_id p | p d. (p, d) \<in> set (ev # evs) \<and> eventCategoryId ctx p \<noteq> None}
        = {pi_id p | p d. (p, d) \<in> set evs \<and> eventCategoryId ctx p \<noteq> None}"
      using None ev by auto
    ultimately show ?thesis using Cons.IH by simp
  next
    case (Some cid)
    then have "set (eventMarks ctx (ev # evs)) = insert (pi_id q) (set (eventMarks ctx evs))"
      by (simp add: ev eventMarks_Cons)
    moreover have "{pi_id p | p d. (p, d) \<in> set (ev # evs) \<and> eventCategoryId ctx p \<noteq> None}
        = insert (pi_id q) {pi_id p | p d. (p, d) \<in> set evs \<and> eventCategoryId ctx p \<noteq> None}"
      using Some ev by auto
    ultimately show ?thesis using Cons.IH by simp
  qed
qed

lemma set_consumed:
  "set (consumed ctx ts) =
     {pi_id item | item t. t \<in> set ts \<and> categoryIdOf ctx t \<noteq> None
                          \<and> matchedPoolItem ctx t = Some item}
     \<union> {pi_id p | p d. (p, d) \<in> set (eventsToPlace ctx) \<and> eventCategoryId ctx p \<noteq> None}"
  by (simp add: consumed_def set_llmMarks set_eventMarks)

lemma list_all2_map_same: "list_all2 P xs (map f xs) = (\<forall>x \<in> set xs. P x (f x))"
  by (induction xs) auto

text \<open>
  C9. In a committed run, the pool items consumed are those matched to an entry that was
  kept and the events placed. Each pool item whose identifier is among them has its last
  use set to the target date and its use count raised by one, once, however often it was
  consumed; every other field, and every other pool item, is unchanged. The update is one
  write of the transaction, made when some item was consumed.
\<close>

theorem pool_usage_update:
  assumes "generatePlan fails tz JSON_parse (Some raw) newId forDate db = (db', Inr r)"
      and "validPlan (parseLLMResponse JSON_parse raw) = Some (out, ts)"
  shows "let ctx = gatherContext tz forDate db;
             used = {pi_id item | item t. t \<in> set ts \<and> categoryIdOf ctx t \<noteq> None
                                        \<and> matchedPoolItem ctx t = Some item}
                    \<union> {pi_id p | p d. (p, d) \<in> set (eventsToPlace ctx) \<and> eventCategoryId ctx p \<noteq> None}
         in poolItems db' =
              map (\<lambda>item. if pi_id item \<in> used
                           then item\<lparr> pi_lastUsedAt := Some forDate, pi_useCount := pi_useCount item + 1 \<rparr>
                           else item) (poolItems db)
            \<and> list_all2
                (\<lambda>item item'.
                   pi_id item' = pi_id item \<and> pi_type item' = pi_type item
                   \<and> pi_title item' = pi_title item \<and> pi_notes item' = pi_notes item
                   \<and> pi_categoryId item' = pi_categoryId item
                   \<and> pi_scheduledAt item' = pi_scheduledAt item
                   \<and> pi_scheduledEnd item' = pi_scheduledEnd item
                   \<and> pi_status item' = pi_status item
                   \<and> pi_cooldownDays item' = pi_cooldownDays item
                   \<and> (pi_id item \<in> used \<longrightarrow>
                        pi_lastUsedAt item' = Some forDate \<and> pi_useCount item' = pi_useCount item + 1)
                   \<and> (pi_id item \<notin> used \<longrightarrow> item' = item))
                (poolItems db) (poolItems db')
            \<and> (\<forall>tx' r'. commit fails tz newId forDate ctx out ts \<lparr> tx_db = db, tx_writes = 0 \<rparr>
                            = Inr (tx', r') \<longrightarrow>
                  tx_writes tx' = 1 + length (llmRows tz ctx (toISODate forDate) newId ts)
                                    + length (eventRows ctx newId (eventsToPlace ctx))
                                    + (if used = {} then 0 else 1))"
proof -
  define ctx where "ctx = gatherContext tz forDate db"
  define used where "used = {pi_id item | item t. t \<in> set ts \<and> categoryIdOf ctx t \<noteq> None
                                        \<and> matchedPoolItem ctx t = Some item}
                    \<union> {pi_id p | p d. (p, d) \<in> set (eventsToPlace ctx) \<and> eventCategoryId ctx p \<noteq> None}"
  define upd where "upd = (\<lambda>item :: PoolItem. if pi_id item \<in> used
                           then item\<lparr> pi_lastUsedAt := Some forDate, pi_useCount := pi_useCount item + 1 \<rparr>
                           else item)"
  have s: "set (consumed ctx ts) = used"
    unfolding used_def by (rule set_consumed)
  then have e: "(consumed ctx ts = []) = (used = {})"
    by (metis set_empty)
  from generatePlan_Inr [OF assms(1)] assms(2)
  have d: "db' = committed tz newId forDate ctx out ts db" by (auto simp: ctx_def)
  have m: "markUsed (consumed ctx ts) forDate = upd"
    by (rule ext) (simp add: markUsed_def s upd_def)
  have 1: "poolItems db' = map upd (poolItems db)"
    by (simp add: d committed_def m)
  have 2: "list_all2
                (\<lambda>item item'.
                   pi_id item' = pi_id item \<and> pi_type item' = pi_type item
                   \<and> pi_title item' = pi_title item \<and> pi_notes item' = pi_notes item
                   \<and> pi_categoryId item' = pi_categoryId item
                   \<and> pi_scheduledAt item' = pi_scheduledAt item
                   \<and> pi_scheduledEnd item' = pi_scheduledEnd item
                   \<and> pi_status item' = pi_status item
                   \<and> pi_cooldownDays item' = pi_cooldownDays item
                   \<and> (pi_id item \<in> used \<longrightarrow>
                        pi_lastUsedAt item' = Some forDate \<and> pi_useCount item' = pi_useCount item + 1)
                   \<and> (pi_id item \<notin> used \<longrightarrow> item' = item))
                (poolItems db) (poolItems db')"
    unfolding 1 list_all2_map_same by (simp add: upd_def)
  have 3: "tx_writes tx' = 1 + length (llmRows tz ctx (toISODate forDate) newId ts)
                                    + length (eventRows ctx newId (eventsToPlace ctx))
                                    + (if used = {} then 0 else 1)"
    if "commit fails tz newId forDate ctx out ts \<lparr> tx_db = db, tx_writes = 0 \<rparr> = Inr (tx', r')"
    for tx' r'
    using commit_Inr(3) [OF that] by (simp add: writes_def e)
  note u = upd_def used_def ctx_def
  show ?thesis
    unfolding Let_def
    using 1 [unfolded u] 2 [unfolded u] 3 [unfolded u]
    by (intro conjI allI impI) (assumption | blast)+
qed


text \<open>The example run marks \<open>walk\<close> and \<open>dentist\<close> and leaves \<open>paint\<close> and \<open>concert\<close>.\<close>

theorem pool_usage_update_witness:
  "poolItems (fst (generatePlan (\<lambda>_. False) 0 parseAnswer (Some answer) ''plan1'' jan15 home)) =
     [walk\<lparr> pi_lastUsedAt := Some jan15, pi_useCount := 5 \<rparr>, paint,
      dentist\<lparr> pi_lastUsedAt := Some jan15, pi_useCount := 1 \<rparr>, concert]"
proof -
  have u: "{pi_id item | item t. t \<in> set [walkEntry, stretch, choresEntry]
              \<and> categoryIdOf (gatherContext 0 jan15 home) t \<noteq> None
              \<and> matchedPoolItem (gatherContext 0 jan15 home) t = Some item}
           \<union> {pi_id p | p d. (p, d) \<in> set (eventsToPlace (gatherContext 0 jan15 home))
              \<and> eventCategoryId (gatherContext 0 jan15 home) p \<noteq> None}
           = {''p1'', ''p3''}"
    unfolding set_consumed [symmetric] consumed_home by simp
  have p: "poolItems home = [walk, paint, dentist, concert]" by (simp add: home_def)
  show ?thesis
    using pool_usage_update [OF run_home parse_answer, unfolded Let_def u, THEN conjunct1]
    by (simp add: run_home p) (simp add: walk_def paint_def dentist_def concert_def)
qed

lemma eventsToPlace_gatherContext:
  "map fst (eventsToPlace (gatherContext tz forDate db))
     = events (ctx_poolItems (gatherContext tz forDate db))"
proof -
  have a: "map fst (List.map_filter
          (\<lambda>ev. case pi_scheduledAt ev of None \<Rightarrow> None | Some scheduledAt \<Rightarrow> Some (ev, scheduledAt))
          xs) = xs" if "\<forall>x \<in> set xs. pi_scheduledAt x \<noteq> None" for xs :: "PoolItem list"
    using that by (induction xs) auto
  have "\<forall>x \<in> set (events (getAvailableForDate tz forDate (poolItems db))). pi_scheduledAt x \<noteq> None"
    by (auto simp: set_events_getAvailableForDate isEventForDate_def split: if_splits option.splits)
  from a [OF this] show ?thesis
    by (simp add: eventsToPlace_def gatherContext_def Let_def)
qed

lemma eventRows_props:
  "row \<in> set (eventRows ctx newId evs) \<Longrightarrow>
     \<exists>p d cid. (p, d) \<in> set evs \<and> eventCategoryId ctx p = Some cid \<and> row = eventRow newId cid p d"
proof (induction evs)
  case Nil
  then show ?case by (simp add: eventRows_Nil)
next
  case (Cons ev evs)
  obtain q e where ev: "ev = (q, e)" by (cases ev)
  from Cons show ?case
    unfolding ev by (cases "eventCategoryId ctx q") (auto simp: eventRows_Cons)
qed

lemma eventsToPlace_props:
  "(p, d) \<in> set (eventsToPlace ctx) \<Longrightarrow> p \<in> set (events (ctx_poolItems ctx)) \<and> pi_scheduledAt p = Some d"
proof -
  have "(p, d) \<in> set (List.map_filter
          (\<lambda>ev. case pi_scheduledAt ev of None \<Rightarrow> None | Some scheduledAt \<Rightarrow> Some (ev, scheduledAt)) xs)
        \<Longrightarrow> p \<in> set xs \<and> pi_scheduledAt p = Some d" for xs
    by (induction xs) (auto split: option.splits)
  then show "(p, d) \<in> set (eventsToPlace ctx) \<Longrightarrow> p \<in> set (events (ctx_poolItems ctx)) \<and> pi_scheduledAt p = Some d"
    by (simp add: eventsToPlace_def)
qed

lemma length_eventRows:
  "\<forall>ev \<in> set evs. eventCategoryId ctx (fst ev) \<noteq> None \<Longrightarrow>
     length (eventRows ctx newId evs) = length evs"
proof (induction evs)
  case Nil
  then show ?case by (simp add: eventRows_Nil)
next
  case (Cons ev evs)
  obtain q e where ev: "ev = (q, e)" by (cases ev)
  from Cons show ?case
    unfolding ev by (cases "eventCategoryId ctx q") (auto simp: eventRows_Cons)
qed

text \<open>
  C10. Of the truthy parsed values, only those whose \<^verbatim>\<open>tasks\<close> is missing or no array
  fail the validation; an empty array passes. Then, when no write fails, the plan is
  committed with the rows of the placed events as its only tasks, each with the start of
  its event as scheduled time and priority 1, and the reported count is the number of
  events of the date, which is the number of rows when every event has a category.
\<close>

theorem empty_tasks_array:
  "(validPlan (Some (Truthy out)) = None) = (llm_tasks out = Missing \<or> llm_tasks out = NotAnArray)
   \<and> (JSON_parse (jsonStr raw) = Some (Truthy out) \<and> llm_tasks out = Entries []
        \<and> (\<forall>n. \<not> fails n) \<longrightarrow>
        (let ctx = gatherContext tz forDate db;
             placed = eventRows ctx newId (eventsToPlace ctx)
         in \<exists>db' r.
              generatePlan fails tz JSON_parse (Some raw) newId forDate db = (db', Inr r)
              \<and> dailyPlans db' = dailyPlans db @ [newPlan newId forDate ctx out]
              \<and> taskRows db' = taskRows db @ placed
              \<and> (\<forall>row \<in> set placed.
                    task_priority row = 1
                    \<and> (\<exists>ev \<in> set (events (ctx_poolItems ctx)). \<exists>d.
                          pi_scheduledAt ev = Some d \<and> task_scheduledTime row = Some (At d)
                          \<and> task_poolItemId row = Some (pi_id ev) \<and> task_title row = pi_title ev))
              \<and> taskCount r = length (events (ctx_poolItems ctx))
              \<and> ((\<forall>ev \<in> set (events (ctx_poolItems ctx)). eventCategoryId ctx ev \<noteq> None) \<longrightarrow>
                    taskCount r = length placed)))"
proof -
  have a: "(validPlan (Some (Truthy out)) = None) = (llm_tasks out = Missing \<or> llm_tasks out = NotAnArray)"
    by (simp add: validPlan_def split: TasksField.splits)
  have b: "let ctx = gatherContext tz forDate db;
             placed = eventRows ctx newId (eventsToPlace ctx)
         in \<exists>db' r.
              generatePlan fails tz JSON_parse (Some raw) newId forDate db = (db', Inr r)
              \<and> dailyPlans db' = dailyPlans db @ [newPlan newId forDate ctx out]
              \<and> taskRows db' = taskRows db @ placed
              \<and> (\<forall>row \<in> set placed.
                    task_priority row = 1
                    \<and> (\<exists>ev \<in> set (events (ctx_poolItems ctx)). \<exists>d.
                          pi_scheduledAt ev = Some d \<and> task_scheduledTime row = Some (At d)
                          \<and> task_poolItemId row = Some (pi_id ev) \<and> task_title row = pi_title ev))
              \<and> taskCount r = length (events (ctx_poolItems ctx))
              \<and> ((\<forall>ev \<in> set (events (ctx_poolItems ctx)). eventCategoryId ctx ev \<noteq> None) \<longrightarrow>
                    taskCount r = length placed)"
    if p: "JSON_parse (jsonStr raw) = Some (Truthy out)" and e: "llm_tasks out = Entries []"
      and nf: "\<forall>n. \<not> fails n"
  proof -
    define ctx where "ctx = gatherContext tz forDate db"
    define placed where "placed = eventRows ctx newId (eventsToPlace ctx)"
    define db' where "db' = committed tz newId forDate ctx out [] db"
    define r where "r = \<lparr> planId = newId, taskCount = totalTasks ctx [] \<rparr>"
    have v: "validPlan (parseLLMResponse JSON_parse raw) = Some (out, [])"
      using p e by (simp add: validPlan_def parseLLMResponse_def)
    have 1: "generatePlan fails tz JSON_parse (Some raw) newId forDate db = (db', Inr r)"
      using generatePlan_run [OF v, of tz newId forDate db fails] nf
      by (simp add: db'_def r_def ctx_def)
    have 2: "dailyPlans db' = dailyPlans db @ [newPlan newId forDate ctx out]"
      by (simp add: db'_def committed_def)
    have 3: "taskRows db' = taskRows db @ placed"
      by (simp add: db'_def committed_def llmRows_Nil placed_def)
    have 4: "task_priority row = 1
                    \<and> (\<exists>ev \<in> set (events (ctx_poolItems ctx)). \<exists>d.
                          pi_scheduledAt ev = Some d \<and> task_scheduledTime row = Some (At d)
                          \<and> task_poolItemId row = Some (pi_id ev) \<and> task_title row = pi_title ev)"
      if "row \<in> set placed" for row
    proof -
      from eventRows_props [OF that [unfolded placed_def]] obtain p d cid where
        pd: "(p, d) \<in> set (eventsToPlace ctx)" and row: "row = eventRow newId cid p d"
        by blast
      from eventsToPlace_props [OF pd] show ?thesis
        by (auto simp: row eventRow_def)
    qed
    have l: "length (eventsToPlace ctx) = length (events (ctx_poolItems ctx))"
      using eventsToPlace_gatherContext [of tz forDate db, THEN arg_cong, of length]
      by (simp add: ctx_def)
    have 5: "taskCount r = length (events (ctx_poolItems ctx))"
      by (simp add: r_def totalTasks_def l)
    have 6: "taskCount r = length placed"
      if "\<forall>ev \<in> set (events (ctx_poolItems ctx)). eventCategoryId ctx ev \<noteq> None"
    proof -
      have "\<forall>ev \<in> set (eventsToPlace ctx). eventCategoryId ctx (fst ev) \<noteq> None"
        using that eventsToPlace_props [of _ _ ctx] by (metis prod.collapse)
      from length_eventRows [OF this, of newId] show ?thesis
        by (simp add: 5 placed_def l)
    qed
    note u = placed_def ctx_def
    show ?thesis
      unfolding Let_def
      using 1 [unfolded u] 2 [unfolded u] 3 [unfolded u] 4 [unfolded u] 5 [unfolded u] 6 [unfolded u]
      by (intro exI [of _ db'] exI [of _ r] conjI ballI impI) (assumption | blast)+
  qed
  from a b show ?thesis by blast
qed

text \<open>An answer with an empty list of entries on the example database.\<close>

theorem empty_tasks_array_witness:
  "generatePlan (\<lambda>_. False) 0 parseAnswer (Some ''``` EMPTY```'') ''plan1'' jan15 home =
     (home\<lparr> dailyPlans := [\<lparr> plan_id = ''plan1'', plan_date = jan15, plan_capacityScore = medium,
                               plan_mentalStateSummary = None \<rparr>],
            taskRows := [eventRow ''plan1'' ''c1'' dentist (19737 * 86400000 + 36000000)],
            poolItems := [walk, paint, dentist\<lparr> pi_lastUsedAt := Some jan15, pi_useCount := 1 \<rparr>,
                          concert] \<rparr>,
      Inr \<lparr> planId = ''plan1'', taskCount = 1 \<rparr>)"
proof -
  have j: "jsonStr ''``` EMPTY```'' = ''EMPTY''"
    by (simp add: jsonStr_def fencedBlock_def trim_def isWhiteSpace_def)
  have p: "parseAnswer (jsonStr ''``` EMPTY```'') =
      Some (Truthy \<lparr> capacity_notes = None, mental_state_notes = None, llm_tasks = Entries [] \<rparr>)"
    by (simp add: j parseAnswer_def)
  have pl: "eventRows (gatherContext 0 jan15 home) ''plan1'' (eventsToPlace (gatherContext 0 jan15 home))
      = [eventRow ''plan1'' ''c1'' dentist (19737 * 86400000 + 36000000)]"
    by (simp add: eventsToPlace_home eventRows_Cons eventRows_Nil eventCategoryId_home)
  from empty_tasks_array [of "\<lparr> capacity_notes = None, mental_state_notes = None, llm_tasks = Entries [] \<rparr>"
      parseAnswer "''``` EMPTY```''" "\<lambda>_. False" 0 jan15 home "''plan1''", THEN conjunct2, rule_format,
      unfolded Let_def pl] p
  obtain db' r where
    g: "generatePlan (\<lambda>_. False) 0 parseAnswer (Some ''``` EMPTY```'') ''plan1'' jan15 home = (db', Inr r)"
    and tc: "taskCount r = length (events (ctx_poolItems (gatherContext 0 jan15 home)))"
    by auto
  have v: "validPlan (parseLLMResponse parseAnswer ''``` EMPTY```'') =
      Some (\<lparr> capacity_notes = None, mental_state_notes = None, llm_tasks = Entries [] \<rparr>, [])"
    using p by (simp add: validPlan_def parseLLMResponse_def)
  have c: "consumed (gatherContext 0 jan15 home) [] = [''p3'']"
    by (simp add: consumed_def llmMarks_Nil eventsToPlace_home eventMarks_Cons eventMarks_Nil
        eventCategoryId_home) (simp add: dentist_def)
  have "committed 0 ''plan1'' jan15 (gatherContext 0 jan15 home)
          \<lparr> capacity_notes = None, mental_state_notes = None, llm_tasks = Entries [] \<rparr> [] home
        = home\<lparr> dailyPlans := [\<lparr> plan_id = ''plan1'', plan_date = jan15, plan_capacityScore = medium,
                               plan_mentalStateSummary = None \<rparr>],
            taskRows := [eventRow ''plan1'' ''c1'' dentist (19737 * 86400000 + 36000000)],
            poolItems := [walk, paint, dentist\<lparr> pi_lastUsedAt := Some jan15, pi_useCount := 1 \<rparr>,
                          concert] \<rparr>"
    unfolding committed_def pl c llmRows_Nil
    by (simp add: newPlan_def ctx_home mentalStateSummary_def)
       (simp add: home_def markUsed_def walk_def paint_def dentist_def concert_def)
  moreover have "totalTasks (gatherContext 0 jan15 home) [] = 1"
    by (simp add: totalTasks_def eventsToPlace_home)
  ultimately show ?thesis
    using generatePlan_Inr [OF g] v g by simp
qed

end
